theory Spec2Isabelle
  imports Complex_Main "HOL-Library.AList" "HOL-Library.Multiset"
begin

section \<open>The JavaScript runtime the two modules rely on\<close>

text \<open>
  The sources are a module that initialises the Supabase client and the React component
  \<open>ReportsView\<close>. Both lean on built-in operations of the language: numbers with
  \<open>NaN\<close>, \<open>String.prototype.trim\<close>, \<open>split\<close>, \<open>parseInt\<close>, the
  \<open>Date\<close> constructor, \<open>Number.prototype.toFixed\<close>, \<open>Array.prototype.sort\<close> and
  plain objects used as dictionaries. This section models those operations after
  ECMAScript, with these limits:
  \<^item> numbers are exact rationals plus \<open>NaN\<close>; binary floating-point rounding and the
    infinities are not modelled (every division in the view is by a positive count or by
    the number of milliseconds in a day);
  \<^item> characters are 8-bit, and white space is the ASCII part of ECMAScript's white space;
  \<^item> the local time zone has a constant offset from UTC, which cancels in every
    comparison and difference the view makes, so a local midnight is a multiple of
    \<open>msPerDay\<close>; daylight-saving transitions are not modelled;
  \<^item> \<open>Object.prototype\<close> is as the language defines it at the start of every
    computation. The view itself can add two properties to it, \<open>totalTime\<close> and \<open>count\<close>;
    the statements about all inputs set these two names aside together with the names of
    its members.
\<close>

datatype number = NaN | Num rat

fun num_add :: "number \<Rightarrow> number \<Rightarrow> number" where
  "num_add (Num a) (Num b) = Num (a + b)"
| "num_add _ _ = NaN"

fun num_sub :: "number \<Rightarrow> number \<Rightarrow> number" where
  "num_sub (Num a) (Num b) = Num (a - b)"
| "num_sub _ _ = NaN"

text \<open>Division by a divisor that is a positive number at every call site.\<close>

fun num_div :: "number \<Rightarrow> rat \<Rightarrow> number" where
  "num_div (Num a) d = Num (a / d)"
| "num_div NaN d = NaN"

subsection \<open>Strings\<close>

definition isWhiteSpace :: "char \<Rightarrow> bool" where
  "isWhiteSpace c = (c \<in> set [CHR 0x09, CHR 0x0A, CHR 0x0B, CHR 0x0C, CHR 0x0D, CHR '' ''])"

definition trim :: "string \<Rightarrow> string" where
  "trim s = rev (dropWhile isWhiteSpace (rev (dropWhile isWhiteSpace s)))"

definition startsWith :: "string \<Rightarrow> string \<Rightarrow> bool" where
  "startsWith s p = (take (length p) s = p)"

text \<open>\<open>s.split(sep)\<close> for a one-character separator; \<open>acc\<close> is the piece being read, reversed.\<close>

fun split_acc :: "char \<Rightarrow> string \<Rightarrow> string \<Rightarrow> string list" where
  "split_acc sep acc [] = [rev acc]"
| "split_acc sep acc (c # cs) =
     (if c = sep then rev acc # split_acc sep [] cs else split_acc sep (c # acc) cs)"

definition split :: "string \<Rightarrow> char \<Rightarrow> string list" where
  "split s sep = split_acc sep [] s"

definition isDigit :: "char \<Rightarrow> bool" where
  "isDigit c = (48 \<le> (of_char c :: nat) \<and> (of_char c :: nat) \<le> 57)"

definition digitVal :: "char \<Rightarrow> nat" where
  "digitVal c = of_char c - 48"

text \<open>
  \<open>parseInt(s, 10)\<close>: leading white space is skipped, one sign is read, then the longest
  run of decimal digits; \<open>None\<close> stands for \<open>NaN\<close> (no digit).
\<close>

definition parseInt :: "string \<Rightarrow> int option" where
  "parseInt s =
     (let S = dropWhile isWhiteSpace s;
          sign = (case S of c # cs \<Rightarrow> if c = CHR ''-'' then - 1 else 1 | [] \<Rightarrow> (1::int));
          S' = (case S of c # cs \<Rightarrow> if c = CHR ''-'' \<or> c = CHR ''+'' then cs else S | [] \<Rightarrow> []);
          Z = takeWhile isDigit S'
      in if Z = [] then None
         else Some (sign * int (foldl (\<lambda>a c. a * 10 + digitVal c) 0 Z)))"

subsection \<open>Dates\<close>

text \<open>A \<open>Date\<close> object holds a time value in milliseconds, or \<open>NaN\<close> (an invalid date).\<close>

datatype Date = InvalidDate | Date int

definition msPerDay :: int where
  "msPerDay = 1000 * 60 * 60 * 24"

definition DayFromYear :: "int \<Rightarrow> int" where
  "DayFromYear y =
     365 * (y - 1970) + (y - 1969) div 4 - (y - 1901) div 100 + (y - 1601) div 400"

definition InLeapYear :: "int \<Rightarrow> bool" where
  "InLeapYear y =
     (if y mod 400 = 0 then True else if y mod 100 = 0 then False else y mod 4 = 0)"

definition DaysBeforeMonth :: "bool \<Rightarrow> int \<Rightarrow> int" where
  "DaysBeforeMonth leap mn =
     sum_list (take (nat mn) [31, if leap then 29 else 28, 31, 30, 31, 30, 31, 31, 30, 31, 30, 31])"

text \<open>\<open>MakeDay\<close>: months beyond 0..11 carry into the year, days beyond the month carry on.\<close>

definition MakeDay :: "int \<Rightarrow> int \<Rightarrow> int \<Rightarrow> int" where
  "MakeDay year month date =
     (let ym = year + month div 12; mn = month mod 12
      in DayFromYear ym + DaysBeforeMonth (InLeapYear ym) mn + date - 1)"

definition MakeFullYear :: "int \<Rightarrow> int" where
  "MakeFullYear y = (if 0 \<le> y \<and> y \<le> 99 then 1900 + y else y)"

definition TimeClip :: "int \<Rightarrow> Date" where
  "TimeClip t = (if \<bar>t\<bar> > 8640000000000000 then InvalidDate else Date t)"

text \<open>\<open>new Date(year, monthIndex, day)\<close>; an argument that is \<open>NaN\<close> gives an invalid date.\<close>

definition new_Date :: "int option \<Rightarrow> int option \<Rightarrow> int option \<Rightarrow> Date" where
  "new_Date year month date =
     (case year of
        None \<Rightarrow> InvalidDate
      | Some y \<Rightarrow>
          (case month of
             None \<Rightarrow> InvalidDate
           | Some m \<Rightarrow>
               (case date of
                  None \<Rightarrow> InvalidDate
                | Some d \<Rightarrow> TimeClip (MakeDay (MakeFullYear y) m d * msPerDay))))"

fun getTime :: "Date \<Rightarrow> number" where
  "getTime InvalidDate = NaN"
| "getTime (Date t) = Num (of_int t)"

fun num_less :: "number \<Rightarrow> number \<Rightarrow> bool" where
  "num_less (Num a) (Num b) = (a < b)"
| "num_less _ _ = False"

subsection \<open>Number formatting\<close>

definition digitChar :: "nat \<Rightarrow> char" where
  "digitChar d = ''0123456789'' ! d"

fun decimal :: "nat \<Rightarrow> string" where
  "decimal n = (if n < 10 then [digitChar n] else decimal (n div 10) @ [digitChar (n mod 10)])"

declare decimal.simps [simp del]

text \<open>
  \<open>x.toFixed(1)\<close>: the sign is split off, \<open>n\<close> is the integer with \<open>n / 10\<close> closest to
  the magnitude (the larger one on a tie), and the last digit of \<open>n\<close> goes behind the
  point. Magnitudes of \<open>10^21\<close> and more, which \<open>toFixed\<close> prints in exponent form, do
  not arise from day counts.
\<close>

definition toFixed1 :: "number \<Rightarrow> string" where
  "toFixed1 x =
     (case x of
        NaN \<Rightarrow> ''NaN''
      | Num r \<Rightarrow>
          (let n = nat \<lfloor>\<bar>r\<bar> * 10 + 1 / 2\<rfloor>
           in (if r < 0 then ''-'' else []) @ decimal (n div 10) @ ''.'' @ decimal (n mod 10)))"

subsection \<open>Arrays and objects\<close>

text \<open>
  \<open>Array.prototype.sort\<close> with a comparison function is stable; it is modelled as a stable
  insertion sort: an element moves behind another only when the comparison is positive
  (a \<open>NaN\<close> comparison counts as zero). When the comparison is \<open>NaN\<close> for some pair of
  elements the language leaves the order to the implementation; what is stated about
  such a result does not depend on its order.
\<close>

fun positive :: "number \<Rightarrow> bool" where
  "positive (Num r) = (0 < r)"
| "positive NaN = False"

fun insert_sorted :: "('a \<Rightarrow> 'a \<Rightarrow> number) \<Rightarrow> 'a \<Rightarrow> 'a list \<Rightarrow> 'a list" where
  "insert_sorted cmp x [] = [x]"
| "insert_sorted cmp x (y # ys) =
     (if positive (cmp x y) then y # insert_sorted cmp x ys else x # y # ys)"

definition array_sort :: "('a \<Rightarrow> 'a \<Rightarrow> number) \<Rightarrow> 'a list \<Rightarrow> 'a list" where
  "array_sort cmp xs = foldr (insert_sorted cmp) xs []"

text \<open>A truthy optional string: neither \<open>undefined\<close> nor empty.\<close>

definition truthy :: "string option \<Rightarrow> bool" where
  "truthy s = (case s of None \<Rightarrow> False | Some x \<Rightarrow> x \<noteq> [])"

subsection \<open>Plain objects used as dictionaries\<close>

text \<open>
  The charts count in objects created as \<open>{}\<close>. Such an object is modelled by the list of
  its own properties in the order of their creation. It inherits from
  \<open>Object.prototype\<close>: reading a key that is not an own property yields the inherited
  member of that name, if there is one. The members are eleven functions and the accessor
  \<open>__proto__\<close>, whose getter returns the prototype object and whose setter ignores every
  value that is not an object.

  A property of \<open>counts\<close> holds a number or, after \<open>+= 1\<close> on an inherited function, a
  string: the source text of the function followed by \<open>1\<close>. The text of a built-in
  function is written as V8 prints it; the charts only use that it is not numeric.
\<close>

datatype cell = Count nat | Text string

definition Object_prototype_functions :: "string list" where
  "Object_prototype_functions =
     [''constructor'', ''__defineGetter__'', ''__defineSetter__'', ''hasOwnProperty'',
      ''__lookupGetter__'', ''__lookupSetter__'', ''isPrototypeOf'', ''propertyIsEnumerable'',
      ''toString'', ''valueOf'', ''toLocaleString'']"

definition Object_prototype_names :: "string list" where
  "Object_prototype_names = ''__proto__'' # Object_prototype_functions"

definition functionText :: "string \<Rightarrow> string" where
  "functionText k =
     ''function '' @ (if k = ''constructor'' then ''Object'' else k) @ ''() { [native code] }''"

text \<open>What \<open>obj[k]\<close> evaluates to: an own property, an inherited function, or the prototype
  object; \<open>None\<close> is \<open>undefined\<close>.\<close>

datatype ref = Own cell | Member string | Prototype

definition get_prop :: "(string \<times> cell) list \<Rightarrow> string \<Rightarrow> ref option" where
  "get_prop obj k =
     (case map_of obj k of
        Some c \<Rightarrow> Some (Own c)
      | None \<Rightarrow>
          if k = ''__proto__'' then Some Prototype
          else if k \<in> set Object_prototype_functions then Some (Member k)
          else None)"

text \<open>\<open>obj[k] = v\<close> for a number, a string or a fresh object \<open>v\<close>: the key \<open>__proto__\<close> goes
  to the inherited setter and creates no own property, every other key becomes or stays
  an own property.\<close>

definition put_prop :: "(string \<times> 'v) list \<Rightarrow> string \<Rightarrow> 'v \<Rightarrow> (string \<times> 'v) list" where
  "put_prop obj k v = (if k = ''__proto__'' then obj else AList.update k v obj)"

text \<open>\<open>x + 1\<close>: a number grows by one, everything else is turned into a string first.\<close>

fun plus1 :: "ref \<Rightarrow> cell" where
  "plus1 (Own (Count n)) = Count (n + 1)"
| "plus1 (Own (Text s)) = Text (s @ ''1'')"
| "plus1 (Member k) = Text (functionText k @ ''1'')"
| "plus1 Prototype = Text ''[object Object]1''"

text \<open>The number a property stands for in arithmetic; the strings that arise start with
  the word \<open>function\<close> and convert to \<open>NaN\<close>.\<close>

fun toNumber :: "cell \<Rightarrow> number" where
  "toNumber (Count n) = Num (of_nat n)"
| "toNumber (Text s) = NaN"

text \<open>
  \<open>Object.entries\<close> lists the own properties: first the keys that are array indices
  (canonical decimal numbers up to \<open>2^32 - 2\<close>) in ascending numeric order, then the other
  keys in the order of their creation.
\<close>

definition decimalValue :: "string \<Rightarrow> int" where
  "decimalValue k = foldl (\<lambda>a c. a * 10 + int (digitVal c)) 0 k"

definition isArrayIndex :: "string \<Rightarrow> bool" where
  "isArrayIndex k =
     (case k of
        [] \<Rightarrow> False
      | c # cs \<Rightarrow>
          if \<not> list_all isDigit k then False
          else if c = CHR ''0'' \<and> cs \<noteq> [] then False
          else decimalValue k \<le> 4294967294)"

definition Object_entries :: "(string \<times> 'v) list \<Rightarrow> (string \<times> 'v) list" where
  "Object_entries obj =
     sort_key (\<lambda>p. decimalValue (fst p)) (filter (\<lambda>p. isArrayIndex (fst p)) obj)
     @ filter (\<lambda>p. \<not> isArrayIndex (fst p)) obj"

section \<open>The Supabase client module\<close>

text \<open>
  The module reads two settings, each from \<open>window.localStorage\<close> first and from
  \<open>import.meta.env\<close> second, and calls \<open>createClient\<close>. These belong to the host and to
  the Supabase library; each may throw, so the model takes them as functions that return
  a thrown value (\<open>Inl\<close>) or a result. \<open>getItem\<close> returns \<open>null\<close> and a missing
  environment variable is \<open>undefined\<close>: both are \<open>None\<close>. A lookup whose value has no
  \<open>trim\<close> makes the expression throw and counts as a lookup that throws. The calls the
  module makes to \<open>createClient\<close> and to the console are recorded in order.
\<close>

datatype exn = Exn string

datatype 'c effect = CreateClient string string | Warn string | Error string exn

record 'c Host =
  localStorage_getItem :: "string \<Rightarrow> exn + string option"
  import_meta_env :: "string \<Rightarrow> exn + string option"
  createClient :: "string \<Rightarrow> string \<Rightarrow> exn + 'c"

text \<open>\<open>(window.localStorage.getItem(key) || import.meta.env[var] || '').trim()\<close>\<close>

definition resolve :: "'c Host \<Rightarrow> string \<Rightarrow> string \<Rightarrow> exn + string" where
  "resolve h key var =
     (case localStorage_getItem h key of
        Inl e \<Rightarrow> Inl e
      | Inr override \<Rightarrow>
          (case (if truthy override then Inr override else import_meta_env h var) of
             Inl e \<Rightarrow> Inl e
           | Inr v \<Rightarrow> Inr (trim (case v of None \<Rightarrow> [] | Some s \<Rightarrow> s))))"

text \<open>The \<open>if\<close> / \<open>else if\<close> of the module, on the two resolved strings.\<close>

definition configure ::
  "'c Host \<Rightarrow> string \<Rightarrow> string \<Rightarrow> 'c effect list \<times> (exn + 'c option)" where
  "configure h supabaseUrl supabaseAnonKey =
     (if supabaseUrl \<noteq> [] \<and> supabaseAnonKey \<noteq> [] \<and> startsWith supabaseUrl ''http'' then
        ([CreateClient supabaseUrl supabaseAnonKey],
         case createClient h supabaseUrl supabaseAnonKey of
           Inl e \<Rightarrow> Inl e
         | Inr c \<Rightarrow> Inr (Some c))
      else if \<not> (supabaseUrl = [] \<and> supabaseAnonKey = []) then
        ([Warn ''Supabase configuration is incomplete or invalid.''], Inr None)
      else ([], Inr None))"

text \<open>The body of the \<open>try\<close> block; its value is \<open>supabaseClient\<close> at the end of the block.\<close>

definition try_body :: "'c Host \<Rightarrow> 'c effect list \<times> (exn + 'c option)" where
  "try_body h =
     (case resolve h ''SUPABASE_URL_OVERRIDE'' ''VITE_SUPABASE_URL'' of
        Inl e \<Rightarrow> ([], Inl e)
      | Inr supabaseUrl \<Rightarrow>
          (case resolve h ''SUPABASE_ANON_KEY_OVERRIDE'' ''VITE_SUPABASE_ANON_KEY'' of
             Inl e \<Rightarrow> ([], Inl e)
           | Inr supabaseAnonKey \<Rightarrow> configure h supabaseUrl supabaseAnonKey))"

text \<open>
  \<open>try { body } catch (error) { handler }\<close>: when the body throws, the handler runs with
  the thrown value, and \<open>supabaseClient\<close> still holds its initial \<open>null\<close>.
\<close>

definition try_catch ::
  "'c effect list \<times> (exn + 'a) \<Rightarrow> (exn \<Rightarrow> 'c effect list \<times> (exn + 'a)) \<Rightarrow>
   'c effect list \<times> (exn + 'a)" where
  "try_catch body handler =
     (case body of
        (fx, Inl e) \<Rightarrow> (case handler e of (fx', r) \<Rightarrow> (fx @ fx', r))
      | (fx, Inr v) \<Rightarrow> (fx, Inr v))"

text \<open>
  The module as a whole: the effects it has, and either the exception that leaves it or
  the exported \<open>supabase\<close>.
\<close>

definition supabase_module :: "'c Host \<Rightarrow> 'c effect list \<times> (exn + 'c option)" where
  "supabase_module h =
     try_catch (try_body h)
       (\<lambda>error. ([Error ''Failed to initialize Supabase client:'' error], Inr None))"

section \<open>ReportsView: helper functions\<close>

text \<open>
  \<open>parseGermanDate\<close>: \<open>None\<close> is the source's \<open>null\<close>; the argument is
  \<open>string | undefined\<close>, and \<open>!dateStr\<close> holds for \<open>undefined\<close> and for the empty string.
\<close>

definition parseGermanDate :: "string option \<Rightarrow> Date option" where
  "parseGermanDate dateStr =
     (case dateStr of None \<Rightarrow> None | Some s \<Rightarrow>
        if s = [] \<or> s = ''N/A'' then None
        else (case split s (CHR ''.'') of
                [p0, p1, p2] \<Rightarrow>
                  Some (new_Date (parseInt p2) (map_option (\<lambda>m. m - 1) (parseInt p1)) (parseInt p0))
              | _ \<Rightarrow> None))"


section \<open>ReportsView: data\<close>

text \<open>
  \<open>Ticket\<close>, \<open>User\<close>, \<open>Status\<close> and \<open>Role\<close> are declared in \<open>../types\<close>, which is not
  among the sources. The records hold the fields the view reads. \<open>Status\<close> and \<open>Role\<close>
  are string enumerations (the view compares a ticket's status with the string of the
  status filter); the three members the view names are parameters of the model.
\<close>

record Enums =
  Role_Technician :: string
  Status_Abgeschlossen :: string
  Status_Ueberfaellig :: string

record Ticket =
  entryDate :: "string option"
  completionDate :: "string option"
  status :: string
  area :: string
  technician :: string

record User =
  name :: string
  role :: string

datatype TimeRange = Range_7d | Range_30d | Range_90d | Range_all

text \<open>The state \<open>reportFilters\<close>; its fields \<open>area\<close>, \<open>status\<close> and \<open>technician\<close> carry
  the suffix \<open>Filter\<close> here, since the ticket has fields of the same names.\<close>

record ReportFilters =
  timeRange :: TimeRange
  areaFilter :: string
  statusFilter :: string
  technicianFilter :: string

record 'v ChartItem =
  label :: string
  val :: 'v

record ColoredItem = "cell ChartItem" +
  color :: string

record Stats =
  stats_total :: nat
  abgeschlossene :: nat
  ueberfaellige :: nat
  avgProcessingTime :: string

section \<open>ReportsView: the component\<close>

definition initialReportFilters :: ReportFilters where
  "initialReportFilters =
     \<lparr>timeRange = Range_30d, areaFilter = ''Alle'', statusFilter = ''Alle'',
      technicianFilter = ''Alle''\<rparr>"

text \<open>\<open>resetFilters\<close> and \<open>handleFilterChange\<close> as functions from the state before to the
  state after; a change is a filter name with a value the select elements offer.\<close>

definition resetFilters :: "ReportFilters \<Rightarrow> ReportFilters" where
  "resetFilters prev =
     \<lparr>timeRange = Range_30d, areaFilter = ''Alle'', statusFilter = ''Alle'',
      technicianFilter = ''Alle''\<rparr>"

datatype FilterChange =
  Change_timeRange TimeRange | Change_area string | Change_status string
  | Change_technician string

fun handleFilterChange :: "FilterChange \<Rightarrow> ReportFilters \<Rightarrow> ReportFilters" where
  "handleFilterChange (Change_timeRange v) prev = prev\<lparr>timeRange := v\<rparr>"
| "handleFilterChange (Change_area v) prev = prev\<lparr>areaFilter := v\<rparr>"
| "handleFilterChange (Change_status v) prev = prev\<lparr>statusFilter := v\<rparr>"
| "handleFilterChange (Change_technician v) prev = prev\<lparr>technicianFilter := v\<rparr>"

definition technicians :: "Enums \<Rightarrow> User list \<Rightarrow> User list" where
  "technicians E users = filter (\<lambda>u. role u = Role_Technician E) users"

definition allTechnicianNames :: "Enums \<Rightarrow> User list \<Rightarrow> string list" where
  "allTechnicianNames E users = ''Alle'' # map name (technicians E users)"

text \<open>The table \<open>days\<close>; it has no entry for \<open>all\<close>, which the view tests first.\<close>

fun days :: "TimeRange \<Rightarrow> int option" where
  "days Range_7d = Some 7"
| "days Range_30d = Some 30"
| "days Range_90d = Some 90"
| "days Range_all = None"

definition today :: Date where
  "today = new_Date (Some 2026) (Some 1) (Some 7)"

text \<open>
  \<open>cutOffDate\<close> is a copy of \<open>today\<close> after \<open>setDate(today.getDate() - n)\<close>: \<open>today\<close> is
  the 7th, and \<open>setDate\<close> keeps the year 2026 and the month index 1 of the object.
\<close>

definition cutOffDate :: "int \<Rightarrow> Date" where
  "cutOffDate n = new_Date (Some 2026) (Some 1) (Some (7 - n))"

text \<open>The callback of \<open>tickets.filter\<close>: one \<open>return false\<close> after the other.\<close>

definition ticketFilter :: "ReportFilters \<Rightarrow> Ticket \<Rightarrow> bool" where
  "ticketFilter reportFilters ticket =
     (if (case days (timeRange reportFilters) of
            None \<Rightarrow> False
          | Some n \<Rightarrow>
              (case parseGermanDate (entryDate ticket) of
                 None \<Rightarrow> True
               | Some entry \<Rightarrow> num_less (getTime entry) (getTime (cutOffDate n))))
      then False
      else if areaFilter reportFilters \<noteq> ''Alle'' \<and> area ticket \<noteq> areaFilter reportFilters
      then False
      else if statusFilter reportFilters \<noteq> ''Alle'' \<and> status ticket \<noteq> statusFilter reportFilters
      then False
      else if technicianFilter reportFilters \<noteq> ''Alle''
              \<and> technician ticket \<noteq> technicianFilter reportFilters
      then False
      else True)"

definition filteredTickets :: "Ticket list \<Rightarrow> ReportFilters \<Rightarrow> Ticket list" where
  "filteredTickets tickets reportFilters = filter (ticketFilter reportFilters) tickets"

text \<open>The reducer of \<open>stats\<close>: a ticket adds its span only when both dates are not \<open>null\<close>.\<close>

definition addProcessingTime :: "number \<Rightarrow> Ticket \<Rightarrow> number" where
  "addProcessingTime acc t =
     (case parseGermanDate (entryDate t) of
        None \<Rightarrow> acc
      | Some entry \<Rightarrow>
          (case parseGermanDate (completionDate t) of
             None \<Rightarrow> acc
           | Some completion \<Rightarrow> num_add acc (num_sub (getTime completion) (getTime entry))))"

definition stats :: "Enums \<Rightarrow> Ticket list \<Rightarrow> Stats" where
  "stats E filtered =
     (let resolvedTickets =
            filter (\<lambda>t. status t = Status_Abgeschlossen E \<and> truthy (completionDate t)
                        \<and> truthy (entryDate t)) filtered;
          avg = (if length resolvedTickets > 0
                 then num_div (num_div (foldl addProcessingTime (Num 0) resolvedTickets)
                                 (of_nat (length resolvedTickets)))
                        (of_int msPerDay)
                 else Num 0)
      in \<lparr>stats_total = length filtered,
          abgeschlossene = length (filter (\<lambda>t. status t = Status_Abgeschlossen E) filtered),
          ueberfaellige = length (filter (\<lambda>t. status t = Status_Ueberfaellig E) filtered),
          avgProcessingTime = toFixed1 avg\<rparr>)"

text \<open>The reducer of \<open>ticketsByArea\<close>: \<open>acc[a] = (acc[a] || 0) + 1\<close>. What \<open>acc[a]\<close> yields
  is truthy unless it is \<open>undefined\<close> (a count is at least 1).\<close>

definition countArea :: "(string \<times> cell) list \<Rightarrow> Ticket \<Rightarrow> (string \<times> cell) list" where
  "countArea acc ticket =
     put_prop acc (area ticket)
       (case get_prop acc (area ticket) of None \<Rightarrow> Count 1 | Some r \<Rightarrow> plus1 r)"

definition areaCounts :: "Ticket list \<Rightarrow> (string \<times> cell) list" where
  "areaCounts filtered = foldl countArea [] filtered"

definition ticketsByArea :: "Ticket list \<Rightarrow> cell ChartItem list" where
  "ticketsByArea filtered =
     take 8 (array_sort (\<lambda>a b. num_sub (toNumber (val b)) (toNumber (val a)))
               (map (\<lambda>(l, v). \<lparr>label = l, val = v\<rparr>) (Object_entries (areaCounts filtered))))"

text \<open>
  \<open>ticketsByTechnician\<close> and \<open>technicianWorkload\<close> run the same two loops over \<open>counts\<close>:
  every technician starts at 0, and a ticket adds one under its technician when the field
  is not empty, is not \<open>N/A\<close> and \<open>counts[ticket.technician]\<close> is not \<open>undefined\<close>.
\<close>

definition initCounts :: "User list \<Rightarrow> (string \<times> cell) list" where
  "initCounts techs = foldl (\<lambda>counts tech. put_prop counts (name tech) (Count 0)) [] techs"

definition countTicket :: "(string \<times> cell) list \<Rightarrow> Ticket \<Rightarrow> (string \<times> cell) list" where
  "countTicket counts ticket =
     (if technician ticket \<noteq> [] \<and> technician ticket \<noteq> ''N/A''
      then (case get_prop counts (technician ticket) of
              None \<Rightarrow> counts
            | Some r \<Rightarrow> put_prop counts (technician ticket) (plus1 r))
      else counts)"

definition technicianCounts :: "User list \<Rightarrow> Ticket list \<Rightarrow> (string \<times> cell) list" where
  "technicianCounts techs ts = foldl countTicket (initCounts techs) ts"

definition colors :: "string list" where
  "colors = [''#0d6efd'', ''#6f42c1'', ''#dc3545'', ''#fd7e14'', ''#198754'', ''#6c757d'',
             ''#343a40'', ''#adb5bd'']"

definition ticketsByTechnician :: "Ticket list \<Rightarrow> User list \<Rightarrow> ColoredItem list" where
  "ticketsByTechnician filtered techs =
     (let sorted = array_sort (\<lambda>a b. num_sub (toNumber (val b)) (toNumber (val a)))
                     (map (\<lambda>(l, v). \<lparr>label = l, val = v\<rparr>)
                        (Object_entries (technicianCounts techs filtered)))
      in map (\<lambda>(item, index).
                \<lparr>label = label item, val = val item, color = colors ! (index mod length colors)\<rparr>)
           (zip sorted [0..<length sorted]))"

text \<open>\<open>(value / totalActiveTickets) * 100\<close> for a positive divisor.\<close>

fun percentage :: "cell \<Rightarrow> nat \<Rightarrow> number" where
  "percentage (Count n) totalActiveTickets = Num (of_nat n / of_nat totalActiveTickets * 100)"
| "percentage (Text s) totalActiveTickets = NaN"

definition technicianWorkload ::
  "Enums \<Rightarrow> Ticket list \<Rightarrow> User list \<Rightarrow> number ChartItem list" where
  "technicianWorkload E filtered techs =
     (let activeTickets = filter (\<lambda>t. status t \<noteq> Status_Abgeschlossen E) filtered;
          totalActiveTickets = length activeTickets
      in array_sort (\<lambda>a b. num_sub (val b) (val a))
           (map (\<lambda>(l, v).
                   \<lparr>label = l,
                    val = (if totalActiveTickets > 0 then percentage v totalActiveTickets
                           else Num 0)\<rparr>)
              (Object_entries (technicianCounts techs activeTickets))))"

text \<open>
  \<open>techData\<close> holds an object with \<open>totalTime\<close> and \<open>count\<close> per technician. A ticket
  whose technician is an own key adds to that entry. For any other technician,
  \<open>techData[t.technician]\<close> is \<open>undefined\<close> or an inherited member; the member is truthy
  and the two additions go to the member itself, which is no entry of \<open>techData\<close>.
  For a technician named \<open>__proto__\<close> the assignment of the first loop makes the new
  object the prototype of \<open>techData\<close> and creates no entry. What is read through that
  prototype under the keys \<open>totalTime\<close> and \<open>count\<close> is a number, and adding a property to
  a non-zero number throws in strict mode: this exception is not modelled.
\<close>

definition initTechData :: "User list \<Rightarrow> (string \<times> number \<times> nat) list" where
  "initTechData techs =
     foldl (\<lambda>techData tech. put_prop techData (name tech) (Num 0, 0)) [] techs"

definition addTechTime ::
  "(string \<times> number \<times> nat) list \<Rightarrow> Ticket \<Rightarrow> (string \<times> number \<times> nat) list" where
  "addTechTime techData t =
     (case parseGermanDate (entryDate t) of
        None \<Rightarrow> techData
      | Some entry \<Rightarrow>
          (case parseGermanDate (completionDate t) of
             None \<Rightarrow> techData
           | Some completion \<Rightarrow>
               (case map_of techData (technician t) of
                  None \<Rightarrow> techData
                | Some (totalTime, cnt) \<Rightarrow>
                    AList.update (technician t)
                      (num_add totalTime
                         (num_div (num_sub (getTime completion) (getTime entry))
                            (of_int msPerDay)),
                       cnt + 1)
                      techData)))"

definition avgProcessingTimePerTechnician ::
  "Enums \<Rightarrow> Ticket list \<Rightarrow> User list \<Rightarrow> number ChartItem list" where
  "avgProcessingTimePerTechnician E filtered techs =
     (let resolvedTickets =
            filter (\<lambda>t. status t = Status_Abgeschlossen E \<and> truthy (completionDate t)
                        \<and> truthy (entryDate t) \<and> technician t \<noteq> ''N/A'') filtered
      in array_sort (\<lambda>a b. num_sub (val b) (val a))
           (map (\<lambda>(l, totalTime, cnt).
                   \<lparr>label = l,
                    val = (if cnt > 0 then num_div totalTime (of_nat cnt) else Num 0)\<rparr>)
              (Object_entries (foldl addTechTime (initTechData techs) resolvedTickets))))"

section \<open>The average processing time as the specification words it\<close>

text \<open>
  The specification describes the statistic as the mean, over the completed tickets with
  both dates present, of completion date minus entry date in days, to one decimal, and 0.0
  without such a ticket. \<open>spec_avgProcessingTime\<close> follows these words; a ticket has both
  dates present when \<open>parseGermanDate\<close> reads a valid date from each field.
\<close>

definition datesPresent :: "Ticket \<Rightarrow> bool" where
  "datesPresent t =
     (case parseGermanDate (entryDate t) of
        Some (Date e) \<Rightarrow>
          (case parseGermanDate (completionDate t) of Some (Date c) \<Rightarrow> True | _ \<Rightarrow> False)
      | _ \<Rightarrow> False)"

definition processingDays :: "Ticket \<Rightarrow> rat" where
  "processingDays t =
     (case parseGermanDate (entryDate t) of
        Some (Date e) \<Rightarrow>
          (case parseGermanDate (completionDate t) of
             Some (Date c) \<Rightarrow> of_int (c - e) / of_int msPerDay
           | _ \<Rightarrow> 0)
      | _ \<Rightarrow> 0)"

definition spec_avgProcessingTime :: "Enums \<Rightarrow> Ticket list \<Rightarrow> string" where
  "spec_avgProcessingTime E filtered =
     (let resolved = filter (\<lambda>t. status t = Status_Abgeschlossen E \<and> datesPresent t) filtered
      in toFixed1 (Num (if resolved = [] then 0
                        else sum_list (map processingDays resolved) / of_nat (length resolved))))"

section \<open>Notions used in the statements\<close>

text \<open>The sum of numbers as \<open>+\<close> adds them (\<open>NaN\<close> as soon as one of them is \<open>NaN\<close>), the
  count that a numeric property holds, and the rational that a number other than \<open>NaN\<close>
  is.\<close>

definition num_sum :: "number list \<Rightarrow> number" where
  "num_sum xs = foldr num_add xs (Num 0)"

fun countOf :: "cell \<Rightarrow> nat" where
  "countOf (Count n) = n"
| "countOf (Text s) = 0"

fun ratOf :: "number \<Rightarrow> rat" where
  "ratOf (Num r) = r"
| "ratOf NaN = 0"

text \<open>
  The names that the statements about all inputs set aside: the members of
  \<open>Object.prototype\<close>, and \<open>totalTime\<close> and \<open>count\<close>. The loop of
  \<open>avgProcessingTimePerTechnician\<close> adds these two properties to \<open>Object.prototype\<close> itself
  when a ticket has the technician \<open>__proto__\<close> and no technician has that name, so that a
  later computation can inherit them.
\<close>

definition Reserved_names :: "string list" where
  "Reserved_names = Object_prototype_names @ [''totalTime'', ''count'']"

section \<open>Sample inputs\<close>

text \<open>A host without overrides whose environment holds both settings, and a host whose
  local storage is blocked; the client that \<open>createClient\<close> returns is the pair of its
  arguments.\<close>

definition host_env :: "(string \<times> string) Host" where
  "host_env =
     \<lparr>localStorage_getItem = (\<lambda>key. Inr None),
      import_meta_env =
        (\<lambda>var. if var = ''VITE_SUPABASE_URL'' then Inr (Some '' https://db.example '')
               else Inr (Some ''anon'')),
      createClient = (\<lambda>url key. Inr (url, key))\<rparr>"

definition host_blocked :: "(string \<times> string) Host" where
  "host_blocked =
     \<lparr>localStorage_getItem = (\<lambda>key. Inl (Exn ''SecurityError'')),
      import_meta_env = (\<lambda>var. Inr None),
      createClient = (\<lambda>url key. Inr (url, key))\<rparr>"

text \<open>Enumeration members, two technicians and an administrator, and three tickets.\<close>

definition sample_enums :: Enums where
  "sample_enums =
     \<lparr>Role_Technician = ''Technician'', Status_Abgeschlossen = ''Abgeschlossen'',
      Status_Ueberfaellig = ''Ueberfaellig''\<rparr>"

definition sample_users :: "User list" where
  "sample_users =
     [\<lparr>name = ''Anna'', role = ''Technician''\<rparr>, \<lparr>name = ''Bob'', role = ''Technician''\<rparr>,
      \<lparr>name = ''Carl'', role = ''Admin''\<rparr>]"

definition ticket_open_bob :: Ticket where
  "ticket_open_bob =
     \<lparr>entryDate = Some ''01.02.2026'', completionDate = None, status = ''Offen'',
      area = ''Haus A'', technician = ''Bob''\<rparr>"

definition ticket_open_unassigned :: Ticket where
  "ticket_open_unassigned =
     \<lparr>entryDate = Some ''02.02.2026'', completionDate = None, status = ''Offen'',
      area = ''Haus B'', technician = ''N/A''\<rparr>"

definition ticket_done_bob :: Ticket where
  "ticket_done_bob =
     \<lparr>entryDate = Some ''20.01.2026'', completionDate = Some ''30.01.2026'',
      status = ''Abgeschlossen'', area = ''Haus A'', technician = ''Bob''\<rparr>"

text \<open>A ticket whose technician field is the name of an inherited member, a technician
  with the name of the accessor, and a host whose \<open>createClient\<close> rejects the URL.\<close>

definition ticket_open_constructor :: Ticket where
  "ticket_open_constructor =
     \<lparr>entryDate = Some ''03.02.2026'', completionDate = None, status = ''Offen'',
      area = ''Haus A'', technician = ''constructor''\<rparr>"

definition user_proto :: User where
  "user_proto = \<lparr>name = ''__proto__'', role = ''Technician''\<rparr>"

definition host_rejecting :: "(string \<times> string) Host" where
  "host_rejecting =
     \<lparr>localStorage_getItem = (\<lambda>key. Inr None),
      import_meta_env =
        (\<lambda>var. if var = ''VITE_SUPABASE_URL'' then Inr (Some ''httpfoo'')
               else Inr (Some ''anon'')),
      createClient = (\<lambda>url key. Inl (Exn ''Invalid supabaseUrl''))\<rparr>"

section \<open>Evaluations shared by the proofs\<close>

lemma parse_01_01_2026: "parseGermanDate (Some ''01.01.2026'') = Some (Date 1767225600000)"
  by code_simp

lemma parse_11_01_2026: "parseGermanDate (Some ''11.01.2026'') = Some (Date 1768089600000)"
  by code_simp

lemma parse_NA: "parseGermanDate (Some ''N/A'') = None"
  by (simp add: parseGermanDate_def)

lemma parse_absent: "parseGermanDate None = None"
  by (simp add: parseGermanDate_def)

lemma parse_empty: "parseGermanDate (Some []) = None"
  by (simp add: parseGermanDate_def)

lemma cutOffDate_30: "cutOffDate 30 = Date 1767830400000"
  by code_simp

text \<open>\<open>cutOffDate n\<close> lies \<open>n\<close> days before \<open>today\<close>, 7 February 2026.\<close>

lemma cutOffDate_today:
  "today = Date 1770422400000 \<and> cutOffDate n = TimeClip (1770422400000 - n * msPerDay)"
  by (simp add: today_def cutOffDate_def new_Date_def MakeFullYear_def MakeDay_def
      DayFromYear_def InLeapYear_def DaysBeforeMonth_def TimeClip_def msPerDay_def
      algebra_simps)

lemma parse_07_02_2026: "parseGermanDate (Some ''07.02.2026'') = Some today"
  by code_simp

lemma parse_08_01_2026: "parseGermanDate (Some ''08.01.2026'') = Some (cutOffDate 30)"
  by code_simp

lemma chart_with_constructor:
  "ticketsByTechnician (filteredTickets [ticket_open_constructor] initialReportFilters)
     (technicians sample_enums sample_users)
   = [\<lparr>label = ''Anna'', val = Count 0, color = ''#0d6efd''\<rparr>,
      \<lparr>label = ''Bob'', val = Count 0, color = ''#6f42c1''\<rparr>,
      \<lparr>label = ''constructor'', val = Text ''function Object() { [native code] }1'',
       color = ''#dc3545''\<rparr>]"
  by code_simp

lemma toFixed1_10: "toFixed1 (Num 10) = ''10.0''"
  by code_simp

lemma toFixed1_5: "toFixed1 (Num 5) = ''5.0''"
  by code_simp

lemma toFixed1_0: "toFixed1 (Num 0) = ''0.0''"
  by code_simp

section \<open>Sorting, counting and the technician charts\<close>

subsection \<open>Sorting\<close>

lemma mset_insert_sorted: "mset (insert_sorted cmp x xs) = add_mset x (mset xs)"
  by (induction xs) auto

lemma mset_array_sort: "mset (array_sort cmp xs) = mset xs"
  unfolding array_sort_def by (induction xs) (auto simp: mset_insert_sorted)

lemma set_array_sort: "set (array_sort cmp xs) = set xs"
  using mset_array_sort [of cmp xs] by (metis set_mset_mset)

lemma length_array_sort: "length (array_sort cmp xs) = length xs"
  using mset_array_sort [of cmp xs] by (metis size_mset)

lemma map_array_sort_mset: "mset (map f (array_sort cmp xs)) = mset (map f xs)"
proof -
  have "mset (map f (array_sort cmp xs)) = image_mset f (mset (array_sort cmp xs))"
    by simp
  also have "\<dots> = image_mset f (mset xs)"
    by (simp only: mset_array_sort)
  finally show ?thesis by simp
qed

lemma set_insert_sorted: "set (insert_sorted cmp x xs) = insert x (set xs)"
  using mset_insert_sorted [of cmp x xs] by (metis set_mset_add_mset_insert set_mset_mset)

text \<open>On elements that the comparison orders by a key, the result is in descending order
  of the key.\<close>

lemma sorted_insert_sorted:
  fixes key :: "'a \<Rightarrow> 'k::linorder"
  assumes cmp: "\<And>b. b \<in> set xs \<Longrightarrow> positive (cmp x b) = (key x < key b)"
  shows "sorted_wrt (\<lambda>a b. key b \<le> key a) xs \<Longrightarrow>
         sorted_wrt (\<lambda>a b. key b \<le> key a) (insert_sorted cmp x xs)"
  using cmp
proof (induction xs)
  case Nil
  then show ?case by simp
next
  case (Cons y ys)
  then show ?case
    by (auto simp: set_insert_sorted)
qed

lemma sorted_array_sort:
  fixes key :: "'a \<Rightarrow> 'k::linorder"
  assumes cmp: "\<And>a b. a \<in> set xs \<Longrightarrow> b \<in> set xs \<Longrightarrow> positive (cmp a b) = (key a < key b)"
  shows "sorted_wrt (\<lambda>a b. key b \<le> key a) (array_sort cmp xs)"
  using cmp
proof (induction xs)
  case Nil
  then show ?case by (simp add: array_sort_def)
next
  case (Cons x xs)
  have sorted: "sorted_wrt (\<lambda>a b. key b \<le> key a) (array_sort cmp xs)"
    by (rule Cons.IH) (simp add: Cons.prems)
  have "sorted_wrt (\<lambda>a b. key b \<le> key a) (insert_sorted cmp x (array_sort cmp xs))"
    by (rule sorted_insert_sorted [OF _ sorted]) (simp add: Cons.prems set_array_sort)
  then show ?case
    by (simp add: array_sort_def)
qed

subsection \<open>Own properties\<close>

lemma mset_Object_entries: "mset (Object_entries obj) = mset obj"
  by (simp add: Object_entries_def)

lemma set_Object_entries: "set (Object_entries obj) = set obj"
  using mset_Object_entries [of obj] by (metis set_mset_mset)

lemma map_of_put_prop:
  "map_of (put_prop obj k v) k'
     = (if k = ''__proto__'' then map_of obj k' else if k' = k then Some v else map_of obj k')"
  by (simp add: put_prop_def update_conv')

lemma keys_put_prop:
  "fst ` set (put_prop obj k v)
     = (if k = ''__proto__'' then fst ` set obj else insert k (fst ` set obj))"
  by (simp add: put_prop_def dom_update)

lemma distinct_put_prop:
  "distinct (map fst obj) \<Longrightarrow> distinct (map fst (put_prop obj k v))"
  by (simp add: put_prop_def distinct_update)

lemma put_prop_own:
  "k \<in> fst ` set obj \<Longrightarrow> k \<noteq> ''__proto__'' \<Longrightarrow> map fst (put_prop obj k v) = map fst obj"
  by (simp add: put_prop_def update_keys)

lemma key_iff_map_of: "k \<in> fst ` set obj \<longleftrightarrow> map_of obj k \<noteq> None"
  by (simp add: map_of_eq_None_iff)

lemma map_of_foldl_put_prop:
  "map_of (foldl (\<lambda>acc x. put_prop acc (f x) v) obj xs) k
     = (if k \<in> f ` set xs \<and> k \<noteq> ''__proto__'' then Some v else map_of obj k)"
  by (induction xs arbitrary: obj) (auto simp: map_of_put_prop)

lemma distinct_foldl_put_prop:
  "distinct (map fst obj) \<Longrightarrow>
   distinct (map fst (foldl (\<lambda>acc x. put_prop acc (f x) v) obj xs))"
  by (induction xs arbitrary: obj) (simp_all add: distinct_put_prop)

subsection \<open>Counting per technician\<close>

lemma map_of_initCounts:
  "map_of (initCounts techs) k
     = (if k \<in> name ` set techs \<and> k \<noteq> ''__proto__'' then Some (Count 0) else None)"
  unfolding initCounts_def by (simp add: map_of_foldl_put_prop)

lemma distinct_initCounts: "distinct (map fst (initCounts techs))"
  unfolding initCounts_def by (rule distinct_foldl_put_prop) simp

lemma keys_initCounts: "fst ` set (initCounts techs) = name ` set techs - {''__proto__''}"
proof (rule set_eqI)
  fix k
  have "k \<in> fst ` set (initCounts techs) \<longleftrightarrow> map_of (initCounts techs) k \<noteq> None"
    by (rule key_iff_map_of)
  also have "\<dots> \<longleftrightarrow> k \<in> name ` set techs - {''__proto__''}"
    by (simp add: map_of_initCounts)
  finally show "k \<in> fst ` set (initCounts techs) \<longleftrightarrow> k \<in> name ` set techs - {''__proto__''}" .
qed

lemma get_prop_own: "map_of obj k = Some c \<Longrightarrow> get_prop obj k = Some (Own c)"
  by (simp add: get_prop_def)

lemma get_prop_plain:
  "k \<notin> set Object_prototype_names \<Longrightarrow> get_prop obj k = map_option Own (map_of obj k)"
  by (auto simp: get_prop_def Object_prototype_names_def split: option.splits)

lemma reserved_plain: "k \<notin> set Reserved_names \<Longrightarrow> k \<notin> set Object_prototype_names"
  by (simp add: Reserved_names_def)

lemma distinct_countTicket:
  "distinct (map fst counts) \<Longrightarrow> distinct (map fst (countTicket counts t))"
  by (simp add: countTicket_def distinct_put_prop split: option.splits)

lemma keys_countTicket_subset:
  "fst ` set (countTicket counts t) \<subseteq> fst ` set counts \<union> set Object_prototype_functions"
  by (auto simp: countTicket_def keys_put_prop get_prop_def key_iff_map_of
      split: option.splits if_splits)

lemma map_of_countTicket:
  assumes "k \<noteq> ''__proto__''" and "map_of counts k = Some (Count n)"
  shows "map_of (countTicket counts t) k
           = Some (Count (if technician t = k \<and> k \<noteq> [] \<and> k \<noteq> ''N/A'' then n + 1 else n))"
proof (cases "technician t = k")
  case True
  with assms show ?thesis
    by (simp add: countTicket_def get_prop_own map_of_put_prop)
next
  case False
  with assms show ?thesis
    by (simp add: countTicket_def map_of_put_prop split: option.splits)
qed

lemma map_of_foldl_countTicket:
  assumes "k \<noteq> ''__proto__''"
  shows "map_of counts k = Some (Count n) \<Longrightarrow>
   map_of (foldl countTicket counts ts) k
     = Some (Count (n + length (filter (\<lambda>t. technician t = k \<and> k \<noteq> [] \<and> k \<noteq> ''N/A'') ts)))"
proof (induction ts arbitrary: counts n)
  case Nil
  then show ?case by simp
next
  case (Cons t ts)
  from Cons.IH [OF map_of_countTicket [OF assms Cons.prems, of t]]
  show ?case by auto
qed

lemma keys_foldl_countTicket_subset:
  "fst ` set (foldl countTicket counts ts) \<subseteq> fst ` set counts \<union> set Object_prototype_functions"
proof (induction ts arbitrary: counts)
  case Nil
  then show ?case by simp
next
  case (Cons t ts)
  from Cons.IH [of "countTicket counts t"] keys_countTicket_subset [of counts t]
  show ?case by auto
qed

lemma distinct_technicianCounts: "distinct (map fst (technicianCounts techs ts))"
proof -
  have "distinct (map fst counts) \<Longrightarrow> distinct (map fst (foldl countTicket counts ts))"
    for counts
    by (induction ts arbitrary: counts) (simp_all add: distinct_countTicket)
  then show ?thesis
    by (simp add: technicianCounts_def distinct_initCounts)
qed

lemma keys_technicianCounts_subset:
  "fst ` set (technicianCounts techs ts)
     \<subseteq> (name ` set techs - {''__proto__''}) \<union> set Object_prototype_functions"
  using keys_foldl_countTicket_subset [of "initCounts techs" ts]
  by (simp add: technicianCounts_def keys_initCounts)

text \<open>A technician other than \<open>__proto__\<close> has an entry with the number of tickets under the
  name, whatever the other tickets are.\<close>

lemma map_of_technicianCounts:
  assumes "k \<in> name ` set techs" and "k \<noteq> ''__proto__''"
  shows "map_of (technicianCounts techs ts) k
           = Some (Count (length (filter (\<lambda>t. technician t = k \<and> k \<noteq> [] \<and> k \<noteq> ''N/A'') ts)))"
proof -
  from assms have "map_of (initCounts techs) k = Some (Count 0)"
    by (simp add: map_of_initCounts)
  from map_of_foldl_countTicket [OF assms(2) this, of ts] show ?thesis
    by (simp add: technicianCounts_def)
qed

lemma countTicket_plain_keys:
  assumes "technician t \<notin> set Object_prototype_names"
  shows "map fst (countTicket counts t) = map fst counts"
proof (cases "map_of counts (technician t)")
  case None
  with assms show ?thesis
    by (simp add: countTicket_def get_prop_plain)
next
  case (Some c)
  then have "technician t \<in> fst ` set counts"
    by (simp add: key_iff_map_of)
  moreover from assms have "technician t \<noteq> ''__proto__''"
    by (auto simp: Object_prototype_names_def)
  ultimately show ?thesis
    using Some by (simp add: countTicket_def get_prop_own put_prop_own)
qed

lemma technicianCounts_plain_keys:
  assumes "list_all (\<lambda>t. technician t \<notin> set Object_prototype_names) ts"
  shows "map fst (technicianCounts techs ts) = map fst (initCounts techs)"
proof -
  have "list_all (\<lambda>t. technician t \<notin> set Object_prototype_names) ts \<Longrightarrow>
        map fst (foldl countTicket counts ts) = map fst counts" for counts
    by (induction ts arbitrary: counts) (simp_all add: countTicket_plain_keys)
  with assms show ?thesis
    by (simp add: technicianCounts_def)
qed

lemma countTicket_unassigned:
  assumes "technician t \<notin> set Object_prototype_names"
    and "technician t = [] \<or> technician t = ''N/A'' \<or> technician t \<notin> fst ` set counts"
  shows "countTicket counts t = counts"
proof (cases "technician t = [] \<or> technician t = ''N/A''")
  case True
  then show ?thesis by (auto simp: countTicket_def)
next
  case False
  with assms(2) have "map_of counts (technician t) = None"
    by (simp add: map_of_eq_None_iff)
  with assms(1) show ?thesis
    by (simp add: countTicket_def get_prop_plain)
qed

lemma technicianCounts_unassigned:
  assumes "technician t \<notin> set Object_prototype_names"
    and "technician t = [] \<or> technician t = ''N/A'' \<or> technician t \<notin> name ` set techs"
  shows "technicianCounts techs (xs @ t # ys) = technicianCounts techs (xs @ ys)"
proof -
  have "technician t \<notin> set Object_prototype_functions"
    using assms(1) by (simp add: Object_prototype_names_def)
  with assms(2) keys_technicianCounts_subset [of techs xs]
  have "technician t = [] \<or> technician t = ''N/A''
          \<or> technician t \<notin> fst ` set (technicianCounts techs xs)"
    by auto
  with assms(1) have "countTicket (technicianCounts techs xs) t = technicianCounts techs xs"
    by (rule countTicket_unassigned)
  then show ?thesis
    by (simp add: technicianCounts_def)
qed

subsection \<open>The chart of counts\<close>

lemma map_zip_index:
  assumes "\<And>item index. g (h (item, index)) = f item"
  shows "map g (map h (zip xs [0..<length xs])) = map f xs"
proof -
  have "map g (map h (zip xs [0..<length xs])) = map (\<lambda>p. f (fst p)) (zip xs [0..<length xs])"
    using assms by (auto simp: split_paired_all)
  also have "\<dots> = map f (map fst (zip xs [0..<length xs]))"
    by (simp only: map_map comp_def)
  also have "map fst (zip xs [0..<length xs]) = xs"
    by (rule map_fst_zip) simp
  finally show ?thesis .
qed

lemma length_filter_key: "length (filter (\<lambda>x. f x = k) xs) = count (mset (map f xs)) k"
  by (induction xs) auto

lemma pairs_ticketsByTechnician:
  "mset (map (\<lambda>item. (label item, val item)) (ticketsByTechnician filtered techs))
     = mset (technicianCounts techs filtered)"
proof -
  have "map (\<lambda>item. (label item, val item)) (ticketsByTechnician filtered techs)
          = map (\<lambda>item. (label item, val item))
              (array_sort (\<lambda>a b. num_sub (toNumber (val b)) (toNumber (val a)))
                 (map (\<lambda>(l, v). \<lparr>label = l, val = v\<rparr>)
                    (Object_entries (technicianCounts techs filtered))))"
    unfolding ticketsByTechnician_def Let_def
    by (rule map_zip_index) simp
  then have "mset (map (\<lambda>item. (label item, val item)) (ticketsByTechnician filtered techs))
          = mset (map (\<lambda>item. (label item, val item))
              (map (\<lambda>(l, v). \<lparr>label = l, val = v\<rparr>)
                 (Object_entries (technicianCounts techs filtered))))"
    by (simp only: map_array_sort_mset)
  also have "map (\<lambda>item. (label item, val item))
               (map (\<lambda>(l, v). \<lparr>label = l, val = v\<rparr>)
                  (Object_entries (technicianCounts techs filtered)))
             = Object_entries (technicianCounts techs filtered)"
    by (simp add: comp_def case_prod_unfold)
  finally show ?thesis
    by (simp only: mset_Object_entries)
qed

lemma labels_ticketsByTechnician:
  "mset (map label (ticketsByTechnician filtered techs))
     = mset (map fst (technicianCounts techs filtered))"
proof -
  have "mset (map label (ticketsByTechnician filtered techs))
          = image_mset fst (mset (map (\<lambda>item. (label item, val item))
                                   (ticketsByTechnician filtered techs)))"
    by (simp add: multiset.map_comp comp_def)
  also have "\<dots> = image_mset fst (mset (technicianCounts techs filtered))"
    by (simp only: pairs_ticketsByTechnician)
  finally show ?thesis by simp
qed

lemma entries_ticketsByTechnician:
  "item \<in> set (ticketsByTechnician filtered techs) \<Longrightarrow>
   map_of (technicianCounts techs filtered) (label item) = Some (val item)"
proof -
  assume "item \<in> set (ticketsByTechnician filtered techs)"
  then have "(label item, val item)
      \<in> set (map (\<lambda>item. (label item, val item)) (ticketsByTechnician filtered techs))"
    by auto
  also have "set (map (\<lambda>item. (label item, val item)) (ticketsByTechnician filtered techs))
               = set (technicianCounts techs filtered)"
    by (rule mset_eq_setD) (rule pairs_ticketsByTechnician)
  finally show ?thesis
    by (simp add: distinct_technicianCounts)
qed

text \<open>
  What holds of \<open>ticketsByTechnician\<close> for all inputs: the labels are distinct, and every
  technician whose name is not \<open>__proto__\<close> has exactly one entry, which holds the number
  of tickets under that name.
\<close>

lemma distinct_labels_ticketsByTechnician:
  "distinct (map label (ticketsByTechnician filtered techs))"
  using labels_ticketsByTechnician [of filtered techs] distinct_technicianCounts [of techs filtered]
  by (metis mset_eq_imp_distinct_iff)

lemma technician_entry:
  assumes "u \<in> set techs" and "name u \<noteq> ''__proto__''"
  shows "length (filter (\<lambda>item. label item = name u) (ticketsByTechnician filtered techs)) = 1"
    and "\<forall>item \<in> set (ticketsByTechnician filtered techs).
           label item = name u \<longrightarrow>
           val item = Count (length (filter (\<lambda>t. technician t = name u \<and> name u \<noteq> []
                                                \<and> name u \<noteq> ''N/A'') filtered))"
proof -
  have counts: "map_of (technicianCounts techs filtered) (name u)
      = Some (Count (length (filter (\<lambda>t. technician t = name u \<and> name u \<noteq> []
                                          \<and> name u \<noteq> ''N/A'') filtered)))"
    using assms by (intro map_of_technicianCounts) auto
  then have "name u \<in> fst ` set (technicianCounts techs filtered)"
    by (simp add: key_iff_map_of)
  then have "name u \<in> set (map fst (technicianCounts techs filtered))"
    by simp
  then have "name u \<in> set (map label (ticketsByTechnician filtered techs))"
    using labels_ticketsByTechnician [of filtered techs] by (metis mset_eq_setD)
  with distinct_labels_ticketsByTechnician [of filtered techs]
  have "count (mset (map label (ticketsByTechnician filtered techs))) (name u) = 1"
    by (simp add: distinct_count_atmost_1)
  then show "length (filter (\<lambda>item. label item = name u) (ticketsByTechnician filtered techs)) = 1"
    by (simp only: length_filter_key)
  show "\<forall>item \<in> set (ticketsByTechnician filtered techs).
           label item = name u \<longrightarrow>
           val item = Count (length (filter (\<lambda>t. technician t = name u \<and> name u \<noteq> []
                                                \<and> name u \<noteq> ''N/A'') filtered))"
  proof (intro ballI impI)
    fix item
    assume "item \<in> set (ticketsByTechnician filtered techs)" and "label item = name u"
    with entries_ticketsByTechnician [of item filtered techs]
    have "map_of (technicianCounts techs filtered) (name u) = Some (val item)"
      by simp
    with counts
    show "val item = Count (length (filter (\<lambda>t. technician t = name u \<and> name u \<noteq> []
                                                \<and> name u \<noteq> ''N/A'') filtered))"
      by simp
  qed
qed

text \<open>
  When no filtered ticket has the name of an inherited member as its technician, the
  entries are those of the technicians, each holds a count, and they are in descending
  order of count.
\<close>

lemma plain_entry:
  assumes plain: "list_all (\<lambda>t. technician t \<notin> set Object_prototype_names) filtered"
    and item: "item \<in> set (ticketsByTechnician filtered techs)"
  shows "label item \<in> name ` set techs - {''__proto__''}"
    and "val item = Count (length (filter (\<lambda>t. technician t = label item \<and> label item \<noteq> []
                                              \<and> label item \<noteq> ''N/A'') filtered))"
proof -
  from entries_ticketsByTechnician [OF item]
  have "label item \<in> fst ` set (technicianCounts techs filtered)"
    by (simp add: key_iff_map_of)
  then have "label item \<in> set (map fst (technicianCounts techs filtered))"
    by simp
  then have "label item \<in> fst ` set (initCounts techs)"
    by (simp only: technicianCounts_plain_keys [OF plain] set_map)
  then show own: "label item \<in> name ` set techs - {''__proto__''}"
    by (simp only: keys_initCounts)
  then have "map_of (technicianCounts techs filtered) (label item)
      = Some (Count (length (filter (\<lambda>t. technician t = label item \<and> label item \<noteq> []
                                          \<and> label item \<noteq> ''N/A'') filtered)))"
    by (intro map_of_technicianCounts) auto
  with entries_ticketsByTechnician [OF item]
  show "val item = Count (length (filter (\<lambda>t. technician t = label item \<and> label item \<noteq> []
                                              \<and> label item \<noteq> ''N/A'') filtered))"
    by simp
qed

lemma plain_sorted:
  assumes plain: "list_all (\<lambda>t. technician t \<notin> set Object_prototype_names) filtered"
  shows "sorted_wrt (\<lambda>a b. countOf (val b) \<le> countOf (val a)) (ticketsByTechnician filtered techs)"
proof -
  define entries where
    "entries = map (\<lambda>(l, v). \<lparr>label = l, val = v\<rparr>)
                 (Object_entries (technicianCounts techs filtered))"
  define sorted where
    "sorted = array_sort (\<lambda>a b. num_sub (toNumber (val b)) (toNumber (val a))) entries"
  have vals: "map val (ticketsByTechnician filtered techs) = map val sorted"
    unfolding ticketsByTechnician_def Let_def sorted_def entries_def
    by (rule map_zip_index) simp
  have "set sorted = set entries"
    by (simp add: sorted_def set_array_sort)
  then have counts: "\<exists>n. val a = Count n" if "a \<in> set entries" for a
  proof -
    from that \<open>set sorted = set entries\<close> have "val a \<in> set (map val sorted)"
      by simp
    then have "val a \<in> set (map val (ticketsByTechnician filtered techs))"
      by (simp only: vals)
    then obtain item where "item \<in> set (ticketsByTechnician filtered techs)"
      and "val item = val a"
      by auto
    with plain_entry(2) [OF plain, of item techs] show ?thesis
      by simp
  qed
  have cmp: "positive (num_sub (toNumber (val b)) (toNumber (val a)))
               = (countOf (val a) < countOf (val b))"
    if "a \<in> set entries" "b \<in> set entries" for a b
    using counts [OF that(1)] counts [OF that(2)] by auto
  have "sorted_wrt (\<lambda>a b. countOf (val b) \<le> countOf (val a)) sorted"
    unfolding sorted_def
    by (rule sorted_array_sort [where key = "\<lambda>item. countOf (val item)"]) (rule cmp)
  then have "sorted_wrt (\<lambda>a b. countOf b \<le> countOf a) (map val sorted)"
    by (simp only: sorted_wrt_map)
  then have "sorted_wrt (\<lambda>a b. countOf b \<le> countOf a)
               (map val (ticketsByTechnician filtered techs))"
    by (simp only: vals)
  then show ?thesis
    by (simp only: sorted_wrt_map)
qed

subsection \<open>The workload chart\<close>

lemma num_sum_ratOf:
  "list_all (\<lambda>x. x \<noteq> NaN) xs \<Longrightarrow> num_sum xs = Num (sum_list (map ratOf xs))"
proof (induction xs)
  case Nil
  then show ?case by (simp add: num_sum_def)
next
  case (Cons x xs)
  then obtain r where "x = Num r"
    by (cases x) auto
  with Cons show ?case
    by (simp add: num_sum_def)
qed

lemma sum_list_mset_cong:
  fixes xs ys :: "'a::comm_monoid_add list"
  shows "mset xs = mset ys \<Longrightarrow> sum_list xs = sum_list ys"
  by (metis sum_mset_sum_list)

lemma count_by_key:
  assumes "distinct ks"
  shows "sum_list (map (\<lambda>k. length (filter (\<lambda>t. f t = k \<and> P k) ts)) ks)
           = length (filter (\<lambda>t. P (f t) \<and> f t \<in> set ks) ts)"
proof (induction ts)
  case Nil
  then show ?case by simp
next
  case (Cons t ts)
  have one: "sum_list (map (\<lambda>k. if f t = k \<and> P k then 1 else 0) ks)
               = (if P (f t) \<and> f t \<in> set ks then 1 else (0::nat))"
    using assms by (induction ks) auto
  have "sum_list (map (\<lambda>k. length (filter (\<lambda>t. f t = k \<and> P k) (t # ts))) ks)
          = sum_list (map (\<lambda>k. (if f t = k \<and> P k then 1 else 0)
                                + length (filter (\<lambda>t. f t = k \<and> P k) ts)) ks)"
    by (rule arg_cong [where f = sum_list]) (rule map_cong, simp_all)
  also have "\<dots> = sum_list (map (\<lambda>k. if f t = k \<and> P k then 1 else 0) ks)
                   + sum_list (map (\<lambda>k. length (filter (\<lambda>t. f t = k \<and> P k) ts)) ks)"
    by (rule sum_list_addf)
  finally show ?case
    by (simp add: one Cons.IH)
qed

text \<open>When no active ticket has the name of an inherited member as its technician, the
  entries of \<open>counts\<close> are the technicians' own keys with the number of active tickets
  under each.\<close>

lemma technicianCounts_plain:
  assumes plain: "list_all (\<lambda>t. technician t \<notin> set Object_prototype_names) ts"
  shows "technicianCounts techs ts
           = map (\<lambda>k. (k, Count (length (filter (\<lambda>t. technician t = k \<and> k \<noteq> [] \<and> k \<noteq> ''N/A'') ts))))
               (map fst (initCounts techs))"
proof -
  have keys: "map fst (technicianCounts techs ts) = map fst (initCounts techs)"
    by (rule technicianCounts_plain_keys) (rule plain)
  have "p = (fst p, Count (length (filter (\<lambda>t. technician t = fst p \<and> fst p \<noteq> []
                                                \<and> fst p \<noteq> ''N/A'') ts)))"
    if "p \<in> set (technicianCounts techs ts)" for p
  proof -
    from that have "fst p \<in> set (map fst (technicianCounts techs ts))"
      by simp
    then have "fst p \<in> fst ` set (initCounts techs)"
      by (simp only: keys set_map)
    then have "fst p \<in> name ` set techs" and "fst p \<noteq> ''__proto__''"
      by (simp_all add: keys_initCounts)
    then have "map_of (technicianCounts techs ts) (fst p)
        = Some (Count (length (filter (\<lambda>t. technician t = fst p \<and> fst p \<noteq> []
                                            \<and> fst p \<noteq> ''N/A'') ts)))"
      by (rule map_of_technicianCounts)
    moreover from that have "map_of (technicianCounts techs ts) (fst p) = Some (snd p)"
      by (simp add: distinct_technicianCounts)
    ultimately show ?thesis
      by (simp add: prod_eq_iff)
  qed
  then have "map (\<lambda>p. p) (technicianCounts techs ts)
      = map (\<lambda>p. (fst p, Count (length (filter (\<lambda>t. technician t = fst p \<and> fst p \<noteq> []
                                                  \<and> fst p \<noteq> ''N/A'') ts))))
          (technicianCounts techs ts)"
    by (intro map_cong) simp_all
  also have "\<dots> = map (\<lambda>k. (k, Count (length (filter (\<lambda>t. technician t = k \<and> k \<noteq> []
                                                       \<and> k \<noteq> ''N/A'') ts))))
                     (map fst (technicianCounts techs ts))"
    by (simp add: comp_def)
  finally show ?thesis
    by (simp add: keys)
qed

lemma vals_technicianWorkload:
  "mset (map val (technicianWorkload E filtered techs))
     = mset (map (\<lambda>p. if filter (\<lambda>t. status t \<noteq> Status_Abgeschlossen E) filtered \<noteq> []
                       then percentage (snd p)
                              (length (filter (\<lambda>t. status t \<noteq> Status_Abgeschlossen E) filtered))
                       else Num 0)
              (technicianCounts techs (filter (\<lambda>t. status t \<noteq> Status_Abgeschlossen E) filtered)))"
proof -
  define active where "active = filter (\<lambda>t. status t \<noteq> Status_Abgeschlossen E) filtered"
  define pct where
    "pct = (\<lambda>p :: string \<times> cell. if active \<noteq> [] then percentage (snd p) (length active) else Num 0)"
  have "mset (map val (technicianWorkload E filtered techs))
          = mset (map val (map (\<lambda>(l, v). \<lparr>label = l,
                    val = (if length active > 0 then percentage v (length active) else Num 0)\<rparr>)
                 (Object_entries (technicianCounts techs active))))"
    unfolding technicianWorkload_def Let_def active_def
    by (rule map_array_sort_mset)
  also have "map val (map (\<lambda>(l, v). \<lparr>label = l,
                    val = (if length active > 0 then percentage v (length active) else Num 0)\<rparr>)
                 (Object_entries (technicianCounts techs active)))
             = map pct (Object_entries (technicianCounts techs active))"
    by (simp add: comp_def case_prod_unfold pct_def)
  also have "mset (map pct (Object_entries (technicianCounts techs active)))
               = image_mset pct (mset (Object_entries (technicianCounts techs active)))"
    by simp
  also have "\<dots> = mset (map pct (technicianCounts techs active))"
    by (simp only: mset_Object_entries mset_map)
  finally show ?thesis
    unfolding pct_def active_def .
qed

lemma sum_technicianWorkload:
  assumes plain: "list_all (\<lambda>t. technician t \<notin> set Object_prototype_names)
                    (filter (\<lambda>t. status t \<noteq> Status_Abgeschlossen E) filtered)"
    and active: "filter (\<lambda>t. status t \<noteq> Status_Abgeschlossen E) filtered \<noteq> []"
  shows "num_sum (map val (technicianWorkload E filtered techs))
     = Num (100 * of_nat (length (filter (\<lambda>t. technician t \<noteq> [] \<and> technician t \<noteq> ''N/A''
                                             \<and> technician t \<in> name ` set techs)
                                   (filter (\<lambda>t. status t \<noteq> Status_Abgeschlossen E) filtered)))
            / of_nat (length (filter (\<lambda>t. status t \<noteq> Status_Abgeschlossen E) filtered)))"
proof -
  define act where "act = filter (\<lambda>t. status t \<noteq> Status_Abgeschlossen E) filtered"
  define n where "n = (\<lambda>k. length (filter (\<lambda>t. technician t = k \<and> k \<noteq> [] \<and> k \<noteq> ''N/A'') act))"
  define ks where "ks = map fst (initCounts techs)"
  define T where "T = (of_nat (length act) :: rat)"
  have counts: "technicianCounts techs act = map (\<lambda>k. (k, Count (n k))) ks"
    unfolding n_def ks_def by (rule technicianCounts_plain) (use plain in \<open>simp add: act_def\<close>)
  have vals: "mset (map val (technicianWorkload E filtered techs))
                = mset (map (\<lambda>k. Num (of_nat (n k) / T * 100)) ks)"
    using active
    by (simp only: vals_technicianWorkload act_def [symmetric] counts if_True)
       (simp add: comp_def T_def)
  then have "set (map val (technicianWorkload E filtered techs))
               = set (map (\<lambda>k. Num (of_nat (n k) / T * 100)) ks)"
    by (rule mset_eq_setD)
  then have numbers: "list_all (\<lambda>x. x \<noteq> NaN) (map val (technicianWorkload E filtered techs))"
    by (auto simp: list_all_iff)
  have "mset (map ratOf (map val (technicianWorkload E filtered techs)))
          = mset (map ratOf (map (\<lambda>k. Num (of_nat (n k) / T * 100)) ks))"
    using vals by (metis mset_map)
  then have "sum_list (map ratOf (map val (technicianWorkload E filtered techs)))
          = sum_list (map ratOf (map (\<lambda>k. Num (of_nat (n k) / T * 100)) ks))"
    by (rule sum_list_mset_cong)
  also have "\<dots> = sum_list (map (\<lambda>k. of_nat (n k) / T * 100) ks)"
    by (simp add: comp_def)
  also have "\<dots> = of_nat (sum_list (map n ks)) / T * 100"
    by (induction ks) (simp_all add: add_divide_distrib distrib_right)
  also have "sum_list (map n ks)
      = length (filter (\<lambda>t. (technician t \<noteq> [] \<and> technician t \<noteq> ''N/A'') \<and> technician t \<in> set ks) act)"
    unfolding n_def by (rule count_by_key) (simp add: ks_def distinct_initCounts)
  also have "filter (\<lambda>t. (technician t \<noteq> [] \<and> technician t \<noteq> ''N/A'') \<and> technician t \<in> set ks) act
      = filter (\<lambda>t. technician t \<noteq> [] \<and> technician t \<noteq> ''N/A''
                    \<and> technician t \<in> name ` set techs) act"
  proof (rule filter_cong [OF refl])
    fix t
    assume "t \<in> set act"
    with plain have "technician t \<noteq> ''__proto__''"
      by (auto simp: act_def list_all_iff Object_prototype_names_def)
    moreover have "set ks = name ` set techs - {''__proto__''}"
      by (simp add: ks_def keys_initCounts)
    ultimately show "((technician t \<noteq> [] \<and> technician t \<noteq> ''N/A'') \<and> technician t \<in> set ks)
      = (technician t \<noteq> [] \<and> technician t \<noteq> ''N/A'' \<and> technician t \<in> name ` set techs)"
      by auto
  qed
  finally have "sum_list (map ratOf (map val (technicianWorkload E filtered techs)))
      = of_nat (length (filter (\<lambda>t. technician t \<noteq> [] \<and> technician t \<noteq> ''N/A''
                    \<and> technician t \<in> name ` set techs) act)) / T * 100" .
  with num_sum_ratOf [OF numbers] show ?thesis
    by (simp add: act_def T_def)
qed

lemma zero_technicianWorkload:
  assumes "filter (\<lambda>t. status t \<noteq> Status_Abgeschlossen E) filtered = []"
    and "item \<in> set (technicianWorkload E filtered techs)"
  shows "val item = Num 0"
  using assms by (auto simp: technicianWorkload_def Let_def set_array_sort)

subsection \<open>Tickets without a known technician\<close>

lemma keys_addTechTime: "map fst (addTechTime techData t) = map fst techData"
  by (auto simp: addTechTime_def update_keys split: option.splits dest: map_of_SomeD
      intro!: image_eqI [where x = "(technician t, _)"])

lemma keys_foldl_addTechTime: "map fst (foldl addTechTime techData ts) = map fst techData"
  by (induction ts arbitrary: techData) (simp_all add: keys_addTechTime)

lemma keys_initTechData: "fst ` set (initTechData techs) = name ` set techs - {''__proto__''}"
proof (rule set_eqI)
  fix k
  have "k \<in> fst ` set (initTechData techs) \<longleftrightarrow> map_of (initTechData techs) k \<noteq> None"
    by (rule key_iff_map_of)
  also have "\<dots> \<longleftrightarrow> k \<in> name ` set techs - {''__proto__''}"
    by (simp add: initTechData_def map_of_foldl_put_prop)
  finally show "k \<in> fst ` set (initTechData techs) \<longleftrightarrow> k \<in> name ` set techs - {''__proto__''}" .
qed

lemma addTechTime_unknown:
  assumes "technician t \<notin> fst ` set techData"
  shows "addTechTime techData t = techData"
proof -
  from assms have "map_of techData (technician t) = None"
    by (simp add: map_of_eq_None_iff)
  then show ?thesis
    by (simp add: addTechTime_def split: option.splits)
qed

lemma techData_unassigned:
  assumes "technician t = ''N/A'' \<or> technician t \<notin> name ` set techs"
  shows "foldl addTechTime (initTechData techs)
           (filter (\<lambda>t. status t = Status_Abgeschlossen E \<and> truthy (completionDate t)
                        \<and> truthy (entryDate t) \<and> technician t \<noteq> ''N/A'') (xs @ t # ys))
         = foldl addTechTime (initTechData techs)
           (filter (\<lambda>t. status t = Status_Abgeschlossen E \<and> truthy (completionDate t)
                        \<and> truthy (entryDate t) \<and> technician t \<noteq> ''N/A'') (xs @ ys))"
proof (cases "technician t = ''N/A''")
  case True
  then show ?thesis by simp
next
  case False
  define R where "R = (\<lambda>t :: Ticket. status t = Status_Abgeschlossen E \<and> truthy (completionDate t)
                        \<and> truthy (entryDate t) \<and> technician t \<noteq> ''N/A'')"
  define d where "d = foldl addTechTime (initTechData techs) (filter R xs)"
  have "fst ` set d = set (map fst d)"
    by simp
  also have "\<dots> = name ` set techs - {''__proto__''}"
    unfolding d_def by (simp only: keys_foldl_addTechTime set_map keys_initTechData)
  finally have "technician t \<notin> fst ` set d"
    using assms False by simp
  then have "addTechTime d t = d"
    by (rule addTechTime_unknown)
  then show ?thesis
    unfolding R_def [symmetric] by (simp add: d_def)
qed

lemma avgProcessingTimePerTechnician_unassigned:
  assumes "technician t = ''N/A'' \<or> technician t \<notin> name ` set techs"
  shows "avgProcessingTimePerTechnician E (xs @ t # ys) techs
           = avgProcessingTimePerTechnician E (xs @ ys) techs"
  unfolding avgProcessingTimePerTechnician_def Let_def
  by (simp only: techData_unassigned [OF assms])

lemma ticketsByTechnician_unassigned:
  assumes "technician t \<notin> set Object_prototype_names"
    and "technician t = [] \<or> technician t = ''N/A'' \<or> technician t \<notin> name ` set techs"
  shows "ticketsByTechnician (xs @ t # ys) techs = ticketsByTechnician (xs @ ys) techs"
  unfolding ticketsByTechnician_def
  by (simp only: technicianCounts_unassigned [OF assms])

subsection \<open>Counts per area\<close>

lemma map_of_countArea:
  assumes "a \<notin> set Object_prototype_names"
    and "map_of acc a = (if n = 0 then None else Some (Count n))"
  shows "map_of (countArea acc t) a
           = (if n + (if area t = a then 1 else 0) = 0 then None
              else Some (Count (n + (if area t = a then 1 else 0))))"
proof (cases "area t = a")
  case True
  from assms(1) have "a \<noteq> ''__proto__''"
    by (auto simp: Object_prototype_names_def)
  with True assms show ?thesis
    by (simp add: countArea_def get_prop_plain map_of_put_prop)
next
  case False
  with assms(2) show ?thesis
    by (simp add: countArea_def map_of_put_prop)
qed

lemma map_of_foldl_countArea:
  assumes "a \<notin> set Object_prototype_names"
  shows "map_of acc a = (if n = 0 then None else Some (Count n)) \<Longrightarrow>
         map_of (foldl countArea acc ts) a
           = (if n + length (filter (\<lambda>t. area t = a) ts) = 0 then None
              else Some (Count (n + length (filter (\<lambda>t. area t = a) ts))))"
proof (induction ts arbitrary: acc n)
  case Nil
  then show ?case by simp
next
  case (Cons t ts)
  from Cons.IH [OF map_of_countArea [OF assms Cons.prems, of t]]
  show ?case by (simp add: add.assoc)
qed

lemma map_of_areaCounts:
  assumes "a \<notin> set Object_prototype_names"
  shows "map_of (areaCounts ts) a
           = (if length (filter (\<lambda>t. area t = a) ts) = 0 then None
              else Some (Count (length (filter (\<lambda>t. area t = a) ts))))"
  using map_of_foldl_countArea [OF assms, of "[]" 0 ts]
  by (simp add: areaCounts_def)

lemma filteredTickets_insert:
  "ticketFilter reportFilters t \<Longrightarrow>
   filteredTickets (pre @ t # post) reportFilters
     = filteredTickets pre reportFilters @ t # filteredTickets post reportFilters"
  "filteredTickets (pre @ post) reportFilters
     = filteredTickets pre reportFilters @ filteredTickets post reportFilters"
  by (simp_all add: filteredTickets_def)

section \<open>Properties of the Supabase client module\<close>

text \<open>
  Claim C5, as stated: the handle is constructed if and only if both resolved strings are
  non-empty and the URL starts with \<open>http\<close>. The module calls \<open>createClient\<close> under this
  condition, but the call may throw, as the Supabase library does for a string that is no
  URL: for \<open>httpfoo\<close> and a key the condition holds, the error is logged, and the handle
  stays \<open>null\<close>.
\<close>

theorem c5_handle_null_when_createClient_throws_counterexample:
  "resolve host_rejecting ''SUPABASE_URL_OVERRIDE'' ''VITE_SUPABASE_URL'' = Inr ''httpfoo''
   \<and> resolve host_rejecting ''SUPABASE_ANON_KEY_OVERRIDE'' ''VITE_SUPABASE_ANON_KEY'' = Inr ''anon''
   \<and> ''httpfoo'' \<noteq> [] \<and> ''anon'' \<noteq> [] \<and> startsWith ''httpfoo'' ''http''
   \<and> supabase_module host_rejecting
       = ([CreateClient ''httpfoo'' ''anon'',
           Error ''Failed to initialize Supabase client:'' (Exn ''Invalid supabaseUrl'')],
          Inr None)"
  by (simp add: host_rejecting_def resolve_def truthy_def trim_def isWhiteSpace_def
      startsWith_def supabase_module_def try_catch_def try_body_def configure_def)

text \<open>
  Claim C5, amended. Let \<open>url\<close> and \<open>key\<close> be the two resolved settings (after fallback and
  \<open>trim\<close>). The module calls \<open>createClient url key\<close> if and only if both are non-empty
  and \<open>url\<close> starts with \<open>http\<close>; the exported handle is the client that this call
  returns, and it stays \<open>null\<close>, with the error logged, when the call throws. Otherwise
  the handle stays \<open>null\<close>, with the warning when one of the two is non-empty and with no
  effect at all when both are empty.
\<close>

theorem c5_client_constructed:
  fixes h :: "'c Host"
  assumes url: "resolve h ''SUPABASE_URL_OVERRIDE'' ''VITE_SUPABASE_URL'' = Inr url"
    and key: "resolve h ''SUPABASE_ANON_KEY_OVERRIDE'' ''VITE_SUPABASE_ANON_KEY'' = Inr key"
  shows
    "(CreateClient url key \<in> set (fst (supabase_module h)))
       = (url \<noteq> [] \<and> key \<noteq> [] \<and> startsWith url ''http'')
     \<and> (snd (supabase_module h) = Inr (Some c))
       = (url \<noteq> [] \<and> key \<noteq> [] \<and> startsWith url ''http'' \<and> createClient h url key = Inr c)
     \<and> (url \<noteq> [] \<and> key \<noteq> [] \<and> startsWith url ''http'' \<and> createClient h url key = Inl e \<longrightarrow>
          supabase_module h
            = ([CreateClient url key, Error ''Failed to initialize Supabase client:'' e],
               Inr None))
     \<and> (\<not> (url \<noteq> [] \<and> key \<noteq> [] \<and> startsWith url ''http'') \<longrightarrow>
          (if url = [] \<and> key = [] then supabase_module h = ([], Inr None)
           else supabase_module h
                  = ([Warn ''Supabase configuration is incomplete or invalid.''], Inr None)))"
  by (auto simp: supabase_module_def try_body_def try_catch_def configure_def url key
      split: sum.splits)

theorem c5_client_constructed_witness:
  "resolve host_env ''SUPABASE_URL_OVERRIDE'' ''VITE_SUPABASE_URL'' = Inr ''https://db.example''
   \<and> resolve host_env ''SUPABASE_ANON_KEY_OVERRIDE'' ''VITE_SUPABASE_ANON_KEY'' = Inr ''anon''
   \<and> CreateClient ''https://db.example'' ''anon'' \<in> set (fst (supabase_module host_env))
   \<and> snd (supabase_module host_env) = Inr (Some (''https://db.example'', ''anon''))"
proof -
  have url: "resolve host_env ''SUPABASE_URL_OVERRIDE'' ''VITE_SUPABASE_URL''
               = Inr ''https://db.example''"
    by (simp add: host_env_def resolve_def truthy_def trim_def isWhiteSpace_def)
  have key: "resolve host_env ''SUPABASE_ANON_KEY_OVERRIDE'' ''VITE_SUPABASE_ANON_KEY''
               = Inr ''anon''"
    by (simp add: host_env_def resolve_def truthy_def trim_def isWhiteSpace_def)
  have "createClient host_env ''https://db.example'' ''anon''
          = Inr (''https://db.example'', ''anon'')"
    by (simp add: host_env_def)
  with c5_client_constructed [OF url key, of "(''https://db.example'', ''anon'')"] url key
  show ?thesis
    by (simp add: startsWith_def)
qed

text \<open>
  Claim C6. No exception leaves the module: whatever the lookups and \<open>createClient\<close> do,
  the module ends with an exported handle, and when anything inside the \<open>try\<close> block
  throws, the error is logged after the effects so far and the handle is \<open>null\<close>.
\<close>

theorem c6_never_throws:
  fixes h :: "'c Host"
  shows
    "(\<exists>fx client. supabase_module h = (fx, Inr client))
     \<and> (\<forall>fx e. try_body h = (fx, Inl e) \<longrightarrow>
           supabase_module h
             = (fx @ [Error ''Failed to initialize Supabase client:'' e], Inr None))"
  by (auto simp: supabase_module_def try_catch_def split: sum.splits prod.splits)

theorem c6_never_throws_witness:
  "try_body host_blocked = ([], Inl (Exn ''SecurityError''))
   \<and> supabase_module host_blocked
       = ([Error ''Failed to initialize Supabase client:'' (Exn ''SecurityError'')], Inr None)"
proof -
  have body: "try_body host_blocked = ([], Inl (Exn ''SecurityError''))"
    by (simp add: try_body_def resolve_def host_blocked_def)
  from c6_never_throws [of host_blocked] body
  have "supabase_module host_blocked
          = ([] @ [Error ''Failed to initialize Supabase client:'' (Exn ''SecurityError'')],
             Inr None)"
    by blast
  with body show ?thesis by simp
qed

section \<open>The report filters\<close>

text \<open>
  Claim C9. Whatever the filter state was, \<open>resetFilters\<close> leaves the time range at
  \<open>30d\<close> and the area, status and technician filters at \<open>Alle\<close>; this is the state of the
  first render, also after any sequence of filter changes.
\<close>

theorem c9_resetFilters:
  "resetFilters prev =
     \<lparr>timeRange = Range_30d, areaFilter = ''Alle'', statusFilter = ''Alle'',
      technicianFilter = ''Alle''\<rparr>
   \<and> resetFilters (foldr handleFilterChange changes initialReportFilters) = initialReportFilters"
  by (simp add: resetFilters_def initialReportFilters_def)

text \<open>
  Claim C4, as stated: every field of the first filter state selects all tickets. The
  time range of the first state is \<open>30d\<close>, not \<open>all\<close>, and it does exclude tickets: one
  entered on 1 January 2026 lies before the cut-off of 8 January 2026 and is filtered out,
  while the time range \<open>all\<close> keeps it.
\<close>

theorem c4_initial_not_all_counterexample:
  "timeRange initialReportFilters \<noteq> Range_all
   \<and> filteredTickets
        [\<lparr>entryDate = Some ''01.01.2026'', completionDate = None, status = ''Offen'',
          area = ''Haus A'', technician = ''N/A''\<rparr>]
        initialReportFilters = []
   \<and> filteredTickets
        [\<lparr>entryDate = Some ''01.01.2026'', completionDate = None, status = ''Offen'',
          area = ''Haus A'', technician = ''N/A''\<rparr>]
        (initialReportFilters\<lparr>timeRange := Range_all\<rparr>)
      = [\<lparr>entryDate = Some ''01.01.2026'', completionDate = None, status = ''Offen'',
          area = ''Haus A'', technician = ''N/A''\<rparr>]"
  by (simp add: initialReportFilters_def filteredTickets_def ticketFilter_def
      parse_01_01_2026 cutOffDate_30)

text \<open>
  Claim C4, amended. The first filter state has the time range \<open>30d\<close> and the area,
  status and technician filters \<open>Alle\<close>. The three categorical filters select all
  tickets: with the time range set to \<open>all\<close>, the first state keeps every ticket. The time
  range does not: \<open>today\<close> is 7 February 2026, a ticket whose entry date is a valid date is
  kept exactly when that date is not more than 30 days before \<open>today\<close>, and a ticket for
  whose entry date \<open>parseGermanDate\<close> returns \<open>null\<close> is excluded.
\<close>

theorem c4_initial_filters:
  "initialReportFilters =
     \<lparr>timeRange = Range_30d, areaFilter = ''Alle'', statusFilter = ''Alle'',
      technicianFilter = ''Alle''\<rparr>
   \<and> ticketFilter (initialReportFilters\<lparr>timeRange := Range_all\<rparr>) ticket
   \<and> parseGermanDate (Some ''07.02.2026'') = Some today
   \<and> today = Date 1770422400000
   \<and> (parseGermanDate (entryDate ticket) = None \<longrightarrow> \<not> ticketFilter initialReportFilters ticket)
   \<and> (\<forall>e. parseGermanDate (entryDate ticket) = Some (Date e) \<longrightarrow>
          ticketFilter initialReportFilters ticket = (1770422400000 - 30 * msPerDay \<le> e))"
proof -
  have cut: "cutOffDate 30 = Date (1770422400000 - 30 * msPerDay)"
    using cutOffDate_today [of 30] by (simp add: TimeClip_def msPerDay_def)
  show ?thesis
    by (auto simp: initialReportFilters_def ticketFilter_def parse_07_02_2026
        cutOffDate_today [THEN conjunct1] cut)
qed

theorem c4_initial_filters_witness:
  "parseGermanDate (entryDate ticket_open_bob) = Some (Date 1769904000000)
   \<and> ticketFilter initialReportFilters ticket_open_bob"
proof -
  have entry: "parseGermanDate (entryDate ticket_open_bob) = Some (Date 1769904000000)"
    by code_simp
  have "\<forall>e. parseGermanDate (entryDate ticket_open_bob) = Some (Date e) \<longrightarrow>
          ticketFilter initialReportFilters ticket_open_bob = (1770422400000 - 30 * msPerDay \<le> e)"
    using c4_initial_filters [of ticket_open_bob] by blast
  with entry
  have "ticketFilter initialReportFilters ticket_open_bob
          = (1770422400000 - 30 * msPerDay \<le> 1769904000000)"
    by blast
  with entry show ?thesis
    by (simp add: msPerDay_def)
qed

text \<open>
  Two facts about the date filter. With a bounded time range, a ticket whose entry date
  \<open>parseGermanDate\<close> gives up on (\<open>null\<close>: absent, empty, \<open>N/A\<close>, or not three parts) is
  excluded; with the range \<open>all\<close> only the categorical filters decide.
\<close>

lemma bounded_range_null_date_excluded:
  "timeRange f \<noteq> Range_all \<Longrightarrow> parseGermanDate (entryDate t) = None \<Longrightarrow> \<not> ticketFilter f t"
  by (cases "timeRange f") (simp_all add: ticketFilter_def)

lemma range_all_keeps:
  "timeRange f = Range_all \<Longrightarrow>
   ticketFilter f t =
     ((areaFilter f = ''Alle'' \<or> area t = areaFilter f)
      \<and> (statusFilter f = ''Alle'' \<or> status t = statusFilter f)
      \<and> (technicianFilter f = ''Alle'' \<or> technician t = technicianFilter f))"
  by (auto simp add: ticketFilter_def)

text \<open>
  Claim C2, at the input where the code departs from it. The entry date \<open>k.A.\<close> has three
  parts, none of them a number, so \<open>parseGermanDate\<close> returns an invalid \<open>Date\<close> object
  instead of \<open>null\<close>; the object passes \<open>!entryDate\<close>, its time value \<open>NaN\<close> is not smaller
  than the cut-off, and the ticket stays in \<open>filteredTickets\<close> under the range \<open>30d\<close>.
\<close>

theorem c2_invalid_date_kept:
  "parseGermanDate (Some ''k.A.'') = Some InvalidDate
   \<and> filteredTickets
        [\<lparr>entryDate = Some ''k.A.'', completionDate = None, status = ''Offen'',
          area = ''Haus A'', technician = ''Anna''\<rparr>]
        \<lparr>timeRange = Range_30d, areaFilter = ''Alle'', statusFilter = ''Alle'',
         technicianFilter = ''Alle''\<rparr>
      = [\<lparr>entryDate = Some ''k.A.'', completionDate = None, status = ''Offen'',
          area = ''Haus A'', technician = ''Anna''\<rparr>]"
  by code_simp

section \<open>The average processing time\<close>

text \<open>
  Claim C8. \<open>parseGermanDate\<close> reads 01.01.2026 and 11.01.2026 as dates whose time values
  differ by exactly ten days, so a completed ticket with these two dates adds ten days to
  the sum of \<open>stats\<close>, and alone it gives the average \<open>10.0\<close>.
\<close>

theorem c8_ten_days:
  "(case (parseGermanDate (Some ''11.01.2026''), parseGermanDate (Some ''01.01.2026'')) of
      (Some completion, Some entry) \<Rightarrow>
         num_div (num_sub (getTime completion) (getTime entry)) (of_int msPerDay) = Num 10
    | _ \<Rightarrow> False)
   \<and> addProcessingTime (Num acc)
        \<lparr>entryDate = Some ''01.01.2026'', completionDate = Some ''11.01.2026'',
         status = Status_Abgeschlossen E, area = a, technician = tech\<rparr>
      = Num (acc + 10 * of_int msPerDay)
   \<and> avgProcessingTime
        (stats E [\<lparr>entryDate = Some ''01.01.2026'', completionDate = Some ''11.01.2026'',
                   status = Status_Abgeschlossen E, area = a, technician = tech\<rparr>])
      = ''10.0''"
  by (simp add: parse_01_01_2026 parse_11_01_2026 addProcessingTime_def stats_def
      truthy_def msPerDay_def toFixed1_10)

text \<open>
  When every completed ticket with two non-empty date fields has dates that
  \<open>parseGermanDate\<close> reads as valid, \<open>stats\<close> shows the mean the specification describes.
\<close>

lemma datesPresent_truthy:
  "datesPresent t \<Longrightarrow> truthy (completionDate t) \<and> truthy (entryDate t)"
  by (auto simp: datesPresent_def truthy_def parseGermanDate_def
      split: option.splits Date.splits if_splits)

lemma addProcessingTime_present:
  "datesPresent t \<Longrightarrow>
   addProcessingTime (Num a) t = Num (a + of_int msPerDay * processingDays t)"
  by (auto simp: datesPresent_def addProcessingTime_def processingDays_def msPerDay_def
      split: option.splits Date.splits)

lemma foldl_addProcessingTime_present:
  "list_all datesPresent ts \<Longrightarrow>
   foldl addProcessingTime (Num a) ts
     = Num (a + of_int msPerDay * sum_list (map processingDays ts))"
  by (induction ts arbitrary: a) (simp_all add: addProcessingTime_present algebra_simps)

lemma stats_average_is_mean:
  assumes "list_all (\<lambda>t. status t = Status_Abgeschlossen E \<and> truthy (completionDate t)
                          \<and> truthy (entryDate t) \<longrightarrow> datesPresent t) filtered"
  shows "avgProcessingTime (stats E filtered) = spec_avgProcessingTime E filtered"
proof -
  define resolved where
    "resolved = filter (\<lambda>t. status t = Status_Abgeschlossen E \<and> datesPresent t) filtered"
  have same: "filter (\<lambda>t. status t = Status_Abgeschlossen E \<and> truthy (completionDate t)
                           \<and> truthy (entryDate t)) filtered = resolved"
    unfolding resolved_def
    using assms by (intro filter_cong) (auto simp: list_all_iff dest: datesPresent_truthy)
  have "list_all datesPresent resolved"
    by (simp add: resolved_def list_all_iff)
  then have sum: "foldl addProcessingTime (Num 0) resolved
                    = Num (of_int msPerDay * sum_list (map processingDays resolved))"
    by (simp add: foldl_addProcessingTime_present)
  have "avgProcessingTime (stats E filtered)
          = toFixed1 (if length resolved > 0
                      then num_div (num_div (foldl addProcessingTime (Num 0) resolved)
                                      (of_nat (length resolved))) (of_int msPerDay)
                      else Num 0)"
    by (simp add: stats_def Let_def same)
  also have "\<dots> = spec_avgProcessingTime E filtered"
    by (cases "resolved = []")
       (simp_all add: sum spec_avgProcessingTime_def Let_def resolved_def [symmetric] msPerDay_def)
  finally show ?thesis .
qed

text \<open>
  Claim C3, at the input where the code departs from it. Two completed tickets, one from
  01.01.2026 to 11.01.2026 and one whose completion date is the string \<open>N/A\<close>: both pass
  the test for non-empty dates, only the first adds its ten days, and \<open>stats\<close> divides by
  two, giving \<open>5.0\<close>. The mean over the tickets with both dates present is \<open>10.0\<close>, and
  \<open>avgProcessingTimePerTechnician\<close>, which counts only the tickets whose dates it could
  read, gives 10 for the same two tickets.
\<close>

theorem c3_average_divides_by_unread:
  "stats E
     [\<lparr>entryDate = Some ''01.01.2026'', completionDate = Some ''11.01.2026'',
       status = Status_Abgeschlossen E, area = ''Haus A'', technician = ''Anna''\<rparr>,
      \<lparr>entryDate = Some ''01.01.2026'', completionDate = Some ''N/A'',
       status = Status_Abgeschlossen E, area = ''Haus A'', technician = ''Anna''\<rparr>]
   = \<lparr>stats_total = 2, abgeschlossene = 2,
      ueberfaellige = (if Status_Abgeschlossen E = Status_Ueberfaellig E then 2 else 0),
      avgProcessingTime = ''5.0''\<rparr>
   \<and> avgProcessingTimePerTechnician E
     [\<lparr>entryDate = Some ''01.01.2026'', completionDate = Some ''11.01.2026'',
       status = Status_Abgeschlossen E, area = ''Haus A'', technician = ''Anna''\<rparr>,
      \<lparr>entryDate = Some ''01.01.2026'', completionDate = Some ''N/A'',
       status = Status_Abgeschlossen E, area = ''Haus A'', technician = ''Anna''\<rparr>]
     [\<lparr>name = ''Anna'', role = Role_Technician E\<rparr>]
   = [\<lparr>label = ''Anna'', val = Num 10\<rparr>]
   \<and> spec_avgProcessingTime E
     [\<lparr>entryDate = Some ''01.01.2026'', completionDate = Some ''11.01.2026'',
       status = Status_Abgeschlossen E, area = ''Haus A'', technician = ''Anna''\<rparr>,
      \<lparr>entryDate = Some ''01.01.2026'', completionDate = Some ''N/A'',
       status = Status_Abgeschlossen E, area = ''Haus A'', technician = ''Anna''\<rparr>]
   = ''10.0''"
  by (simp add: stats_def avgProcessingTimePerTechnician_def truthy_def addProcessingTime_def
      parse_01_01_2026 parse_11_01_2026 parse_NA msPerDay_def toFixed1_5 toFixed1_10
      initTechData_def addTechTime_def array_sort_def put_prop_def Object_entries_def
      isArrayIndex_def isDigit_def
      spec_avgProcessingTime_def datesPresent_def processingDays_def)

section \<open>Tickets per technician\<close>

text \<open>
  Claim C7, at the inputs where the code departs from it. \<open>counts[ticket.technician] !==
  undefined\<close> is meant to hold for the technicians only, but \<open>counts\<close> inherits from
  \<open>Object.prototype\<close>: for an open ticket whose technician field is \<open>constructor\<close> the test
  holds, \<open>+= 1\<close> turns the inherited function into a string and stores it, and the chart has
  a third entry that is no technician's and holds no count. And \<open>counts['__proto__'] = 0\<close>
  creates no property: a technician named \<open>__proto__\<close> has no entry. For all other inputs
  the claim holds, see \<open>technician_entry\<close>, \<open>plain_entry\<close> and \<open>plain_sorted\<close>.
\<close>

theorem c7_inherited_name_entry:
  "set (map (\<lambda>item. (label item, val item))
          (ticketsByTechnician (filteredTickets [ticket_open_constructor] initialReportFilters)
             (technicians sample_enums sample_users)))
     = {(''Anna'', Count 0), (''Bob'', Count 0),
        (''constructor'', Text ''function Object() { [native code] }1'')}
   \<and> length (ticketsByTechnician
                (filteredTickets [ticket_open_constructor] initialReportFilters)
                (technicians sample_enums sample_users)) = 3
   \<and> technicians sample_enums (user_proto # sample_users)
     = [user_proto, \<lparr>name = ''Anna'', role = ''Technician''\<rparr>,
        \<lparr>name = ''Bob'', role = ''Technician''\<rparr>]
   \<and> ticketsByTechnician (filteredTickets [] initialReportFilters)
       (technicians sample_enums (user_proto # sample_users))
     = [\<lparr>label = ''Anna'', val = Count 0, color = ''#0d6efd''\<rparr>,
        \<lparr>label = ''Bob'', val = Count 0, color = ''#6f42c1''\<rparr>]"
proof -
  have "technicians sample_enums (user_proto # sample_users)
     = [user_proto, \<lparr>name = ''Anna'', role = ''Technician''\<rparr>,
        \<lparr>name = ''Bob'', role = ''Technician''\<rparr>]"
    and "ticketsByTechnician (filteredTickets [] initialReportFilters)
       (technicians sample_enums (user_proto # sample_users))
     = [\<lparr>label = ''Anna'', val = Count 0, color = ''#0d6efd''\<rparr>,
        \<lparr>label = ''Bob'', val = Count 0, color = ''#6f42c1''\<rparr>]"
    by code_simp+
  then show ?thesis
    by (simp add: chart_with_constructor)
qed

section \<open>Workload per technician\<close>

text \<open>
  Claim C1, as stated: the percentages of \<open>technicianWorkload\<close> sum to 100 whenever a
  filtered ticket is not completed. On the first render with one open ticket whose
  technician is \<open>N/A\<close>, that ticket is the only active one, it is counted in
  \<open>totalActiveTickets\<close> but for no technician, and both percentages are 0: they sum to 0.
\<close>

theorem c1_workload_sums_to_100_counterexample:
  "filter (\<lambda>t. status t \<noteq> Status_Abgeschlossen sample_enums)
     (filteredTickets [ticket_open_unassigned] initialReportFilters)
     = [ticket_open_unassigned]
   \<and> technicianWorkload sample_enums
       (filteredTickets [ticket_open_unassigned] initialReportFilters)
       (technicians sample_enums sample_users)
     = [\<lparr>label = ''Anna'', val = Num 0\<rparr>, \<lparr>label = ''Bob'', val = Num 0\<rparr>]
   \<and> num_sum (map val
         (technicianWorkload sample_enums
            (filteredTickets [ticket_open_unassigned] initialReportFilters)
            (technicians sample_enums sample_users))) = Num 0"
  by code_simp

text \<open>
  Claim C1, amended. The divisor is the number of all active filtered tickets, the
  dividends count only the active tickets whose technician field is not empty, is not
  \<open>N/A\<close> and is the name of a technician. So, when no active ticket has a reserved name
  (a member of \<open>Object.prototype\<close>, \<open>totalTime\<close> or \<open>count\<close>) as its technician, the
  percentages sum (in exact arithmetic) to 100 times the share of these tickets among the
  active ones, which is 100 when every active ticket is assigned to a known technician;
  and every percentage is 0 when there is no active ticket.
\<close>

theorem c1_workload_sum:
  fixes E :: Enums and tickets :: "Ticket list" and users :: "User list"
    and reportFilters :: ReportFilters
  defines "techs \<equiv> technicians E users"
  defines "active \<equiv> filter (\<lambda>t. status t \<noteq> Status_Abgeschlossen E)
                       (filteredTickets tickets reportFilters)"
  defines "workload \<equiv> technicianWorkload E (filteredTickets tickets reportFilters) techs"
  assumes reserved: "list_all (\<lambda>t. technician t \<notin> set Reserved_names) active"
  shows
    "(active \<noteq> [] \<longrightarrow>
        num_sum (map val workload)
          = Num (100 * of_nat (length (filter (\<lambda>t. technician t \<noteq> [] \<and> technician t \<noteq> ''N/A''
                                                 \<and> technician t \<in> name ` set techs) active))
                 / of_nat (length active)))
     \<and> (active \<noteq> []
          \<and> list_all (\<lambda>t. technician t \<noteq> [] \<and> technician t \<noteq> ''N/A''
                           \<and> technician t \<in> name ` set techs) active
         \<longrightarrow> num_sum (map val workload) = Num 100)
     \<and> (active = [] \<longrightarrow> list_all (\<lambda>item. val item = Num 0) workload)"
proof -
  have plain: "list_all (\<lambda>t. technician t \<notin> set Object_prototype_names) active"
    using reserved by (simp add: list_all_iff reserved_plain)
  have sum: "num_sum (map val workload)
      = Num (100 * of_nat (length (filter (\<lambda>t. technician t \<noteq> [] \<and> technician t \<noteq> ''N/A''
                                             \<and> technician t \<in> name ` set techs) active))
             / of_nat (length active))"
    if "active \<noteq> []"
    unfolding workload_def active_def
    by (rule sum_technicianWorkload) (use plain that in \<open>simp_all add: active_def\<close>)
  have all: "filter P active = active" if "list_all P active" for P
    using that by (simp add: list_all_iff)
  have zero: "list_all (\<lambda>item. val item = Num 0) workload" if "active = []"
    using that zero_technicianWorkload [of E "filteredTickets tickets reportFilters" _ techs]
    unfolding workload_def active_def by (auto simp: list_all_iff)
  show ?thesis
    using sum zero by (auto simp: all)
qed

theorem c1_workload_sum_witness:
  "filter (\<lambda>t. status t \<noteq> Status_Abgeschlossen sample_enums)
     (filteredTickets [ticket_open_bob, ticket_open_unassigned, ticket_done_bob]
        initialReportFilters)
     = [ticket_open_bob, ticket_open_unassigned]
   \<and> num_sum (map val
         (technicianWorkload sample_enums
            (filteredTickets [ticket_open_bob, ticket_open_unassigned, ticket_done_bob]
               initialReportFilters)
            (technicians sample_enums sample_users))) = Num 50"
proof -
  have active: "filter (\<lambda>t. status t \<noteq> Status_Abgeschlossen sample_enums)
     (filteredTickets [ticket_open_bob, ticket_open_unassigned, ticket_done_bob]
        initialReportFilters)
     = [ticket_open_bob, ticket_open_unassigned]"
    by code_simp
  have assigned: "filter (\<lambda>t. technician t \<noteq> [] \<and> technician t \<noteq> ''N/A''
                     \<and> technician t \<in> name ` set (technicians sample_enums sample_users))
       [ticket_open_bob, ticket_open_unassigned] = [ticket_open_bob]"
    by (simp add: ticket_open_bob_def ticket_open_unassigned_def technicians_def
        sample_users_def sample_enums_def)
  have plain: "list_all (\<lambda>t. technician t \<notin> set Reserved_names)
                 (filter (\<lambda>t. status t \<noteq> Status_Abgeschlossen sample_enums)
                    (filteredTickets [ticket_open_bob, ticket_open_unassigned, ticket_done_bob]
                       initialReportFilters))"
    unfolding active
    by (simp add: ticket_open_bob_def ticket_open_unassigned_def Reserved_names_def
        Object_prototype_names_def Object_prototype_functions_def)
  from c1_workload_sum [where users = sample_users, OF plain, unfolded active assigned,
      THEN conjunct1]
  have "num_sum (map val
         (technicianWorkload sample_enums
            (filteredTickets [ticket_open_bob, ticket_open_unassigned, ticket_done_bob]
               initialReportFilters)
            (technicians sample_enums sample_users))) = Num 50"
    by simp
  with active show ?thesis by simp
qed

section \<open>The charts and tickets without a known technician\<close>

text \<open>
  Claim C10, as stated: a ticket whose technician is \<open>N/A\<close> contributes to no bar of the
  three technician charts. With one open ticket of Bob, Bob's workload bar is 100; adding
  an open ticket whose technician is \<open>N/A\<close> brings it to 50, since the added ticket
  counts in \<open>totalActiveTickets\<close>.
\<close>

theorem c10_unassigned_ticket_counterexample:
  "technician ticket_open_unassigned = ''N/A''
   \<and> technicianWorkload sample_enums
       (filteredTickets [ticket_open_bob] initialReportFilters)
       (technicians sample_enums sample_users)
     = [\<lparr>label = ''Bob'', val = Num 100\<rparr>, \<lparr>label = ''Anna'', val = Num 0\<rparr>]
   \<and> technicianWorkload sample_enums
       (filteredTickets [ticket_open_bob, ticket_open_unassigned] initialReportFilters)
       (technicians sample_enums sample_users)
     = [\<lparr>label = ''Bob'', val = Num 50\<rparr>, \<lparr>label = ''Anna'', val = Num 0\<rparr>]"
  by code_simp

text \<open>
  Claim C10, amended. Let \<open>t\<close> pass the filters, with a technician field that is not a
  reserved name (a member of \<open>Object.prototype\<close>, \<open>totalTime\<close> or \<open>count\<close>) and that is
  empty, \<open>N/A\<close> or no technician's name. Then \<open>t\<close> is counted for no technician: the chart of counts is the same with and
  without \<open>t\<close>, and so are the counts behind the workload chart. The workload chart is the
  same when \<open>t\<close> is completed; when it is not, \<open>t\<close> is one more active ticket in the divisor
  of every percentage. The chart of average processing times is the same when the field
  is \<open>N/A\<close> or no technician's name. And \<open>t\<close> is counted in the total, in the completed and
  overdue tickets by its status, and, when its area is not a reserved name, in the count
  of its area.
\<close>

theorem c10_unassigned_ticket:
  fixes E :: Enums and users :: "User list" and reportFilters :: ReportFilters
    and pre post :: "Ticket list" and t :: Ticket
  defines "techs \<equiv> technicians E users"
  defines "with_t \<equiv> filteredTickets (pre @ t # post) reportFilters"
  defines "without \<equiv> filteredTickets (pre @ post) reportFilters"
  defines "active \<equiv> filter (\<lambda>x :: Ticket. status x \<noteq> Status_Abgeschlossen E)"
  assumes kept: "ticketFilter reportFilters t"
    and reserved: "technician t \<notin> set Reserved_names"
    and unassigned:
      "technician t = [] \<or> technician t = ''N/A'' \<or> technician t \<notin> name ` set techs"
  shows
    "ticketsByTechnician with_t techs = ticketsByTechnician without techs
     \<and> technicianCounts techs (active with_t) = technicianCounts techs (active without)
     \<and> (status t = Status_Abgeschlossen E \<longrightarrow>
          technicianWorkload E with_t techs = technicianWorkload E without techs)
     \<and> (status t \<noteq> Status_Abgeschlossen E \<longrightarrow>
          technicianWorkload E with_t techs
            = array_sort (\<lambda>a b. num_sub (val b) (val a))
                (map (\<lambda>(l, v). \<lparr>label = l, val = percentage v (length (active without) + 1)\<rparr>)
                   (Object_entries (technicianCounts techs (active without)))))
     \<and> (technician t = ''N/A'' \<or> technician t \<notin> name ` set techs \<longrightarrow>
          avgProcessingTimePerTechnician E with_t techs
            = avgProcessingTimePerTechnician E without techs)
     \<and> stats_total (stats E with_t) = stats_total (stats E without) + 1
     \<and> abgeschlossene (stats E with_t)
         = abgeschlossene (stats E without) + (if status t = Status_Abgeschlossen E then 1 else 0)
     \<and> ueberfaellige (stats E with_t)
         = ueberfaellige (stats E without) + (if status t = Status_Ueberfaellig E then 1 else 0)
     \<and> (area t \<notin> set Reserved_names \<longrightarrow>
          map_of (areaCounts with_t) (area t)
            = Some (Count (length (filter (\<lambda>x. area x = area t) without) + 1)))"
proof -
  have plain: "technician t \<notin> set Object_prototype_names"
    using reserved by (rule reserved_plain)
  define xs where "xs = filteredTickets pre reportFilters"
  define ys where "ys = filteredTickets post reportFilters"
  have with_t: "with_t = xs @ t # ys"
    unfolding with_t_def xs_def ys_def by (rule filteredTickets_insert(1)) (rule kept)
  have without: "without = xs @ ys"
    unfolding without_def xs_def ys_def by (rule filteredTickets_insert(2))
  have bars: "ticketsByTechnician with_t techs = ticketsByTechnician without techs"
    unfolding with_t without by (rule ticketsByTechnician_unassigned) (rule plain, rule unassigned)
  have completed: "active with_t = active without" if "status t = Status_Abgeschlossen E"
    using that by (simp add: active_def with_t without)
  have open_t: "active with_t = active xs @ t # active ys" "active without = active xs @ active ys"
    if "status t \<noteq> Status_Abgeschlossen E"
    using that by (simp_all add: active_def with_t without)
  have counts: "technicianCounts techs (active with_t) = technicianCounts techs (active without)"
  proof (cases "status t = Status_Abgeschlossen E")
    case True
    then show ?thesis by (simp only: completed)
  next
    case False
    show ?thesis
      unfolding open_t [OF False]
      by (rule technicianCounts_unassigned) (rule plain, rule unassigned)
  qed
  have workload_done: "technicianWorkload E with_t techs = technicianWorkload E without techs"
    if "status t = Status_Abgeschlossen E"
    using completed [OF that] by (simp add: technicianWorkload_def active_def)
  have workload_open: "technicianWorkload E with_t techs
            = array_sort (\<lambda>a b. num_sub (val b) (val a))
                (map (\<lambda>(l, v). \<lparr>label = l, val = percentage v (length (active without) + 1)\<rparr>)
                   (Object_entries (technicianCounts techs (active without))))"
    if "status t \<noteq> Status_Abgeschlossen E"
  proof -
    have len: "length (active with_t) = length (active without) + 1"
      by (simp add: open_t [OF that])
    have pos: "0 < length (active without) + 1"
      by simp
    show ?thesis
      unfolding technicianWorkload_def Let_def
      by (simp only: counts [unfolded active_def] len [unfolded active_def]
          pos [unfolded active_def] if_True active_def)
  qed
  have avg: "avgProcessingTimePerTechnician E with_t techs
               = avgProcessingTimePerTechnician E without techs"
    if "technician t = ''N/A'' \<or> technician t \<notin> name ` set techs"
    unfolding with_t without
    by (rule avgProcessingTimePerTechnician_unassigned) (rule that)
  have area: "map_of (areaCounts with_t) (area t)
            = Some (Count (length (filter (\<lambda>x. area x = area t) without) + 1))"
    if "area t \<notin> set Reserved_names"
    by (simp add: map_of_areaCounts [OF reserved_plain [OF that]] with_t without)
  have stats: "stats_total (stats E with_t) = stats_total (stats E without) + 1"
    "abgeschlossene (stats E with_t)
       = abgeschlossene (stats E without) + (if status t = Status_Abgeschlossen E then 1 else 0)"
    "ueberfaellige (stats E with_t)
       = ueberfaellige (stats E without) + (if status t = Status_Ueberfaellig E then 1 else 0)"
    by (simp_all add: stats_def Let_def with_t without)
  from bars counts workload_done workload_open avg stats area show ?thesis
    by blast
qed

theorem c10_unassigned_ticket_witness:
  "ticketFilter initialReportFilters ticket_open_unassigned
   \<and> technician ticket_open_unassigned = ''N/A''
   \<and> ticketsByTechnician
       (filteredTickets [ticket_open_bob, ticket_open_unassigned, ticket_done_bob]
          initialReportFilters)
       (technicians sample_enums sample_users)
     = ticketsByTechnician
         (filteredTickets [ticket_open_bob, ticket_done_bob] initialReportFilters)
         (technicians sample_enums sample_users)
   \<and> stats_total (stats sample_enums
        (filteredTickets [ticket_open_bob, ticket_open_unassigned, ticket_done_bob]
           initialReportFilters)) = 3"
proof -
  have kept: "ticketFilter initialReportFilters ticket_open_unassigned"
    by code_simp
  have na: "technician ticket_open_unassigned = ''N/A''"
    by (simp add: ticket_open_unassigned_def)
  then have plain: "technician ticket_open_unassigned \<notin> set Reserved_names"
    by (simp add: Reserved_names_def Object_prototype_names_def Object_prototype_functions_def)
  from na have unassigned: "technician ticket_open_unassigned = []
      \<or> technician ticket_open_unassigned = ''N/A''
      \<or> technician ticket_open_unassigned \<notin> name ` set (technicians sample_enums sample_users)"
    by simp
  have total: "stats_total (stats sample_enums
        (filteredTickets ([ticket_open_bob] @ [ticket_done_bob]) initialReportFilters)) = 2"
    by code_simp
  note c10 = c10_unassigned_ticket
      [where pre = "[ticket_open_bob]" and post = "[ticket_done_bob]", OF kept plain unassigned]
  from c10 total kept na show ?thesis
    by simp
qed

end
